theory Spec2Isabelle
  imports Main "HOL-Library.Word" "HOL-Library.Sublist"
begin

unbundle bit_operations_syntax

section \<open>Strings\<close>

text \<open>
  Python strings are modelled as \<open>string\<close> (lists of 8-bit characters) and read as ASCII
  text: the letters are \<open>A-Z\<close> and \<open>a-z\<close>, the digits \<open>0-9\<close>. Characters outside ASCII
  are neither letters nor digits here and \<open>lower\<close> leaves them alone.
\<close>

definition is_upper :: "char \<Rightarrow> bool" where
  "is_upper c = (let n = (of_char c :: nat) in 65 \<le> n \<and> n \<le> 90)"

definition is_lower :: "char \<Rightarrow> bool" where
  "is_lower c = (let n = (of_char c :: nat) in 97 \<le> n \<and> n \<le> 122)"

definition is_digit :: "char \<Rightarrow> bool" where
  "is_digit c = (let n = (of_char c :: nat) in 48 \<le> n \<and> n \<le> 57)"

definition is_alpha :: "char \<Rightarrow> bool" where
  "is_alpha c = (is_upper c \<or> is_lower c)"

definition is_alnum :: "char \<Rightarrow> bool" where
  "is_alnum c = (is_alpha c \<or> is_digit c)"

text \<open>\<open>str.lower()\<close>, one character at a time.\<close>

definition lower_char :: "char \<Rightarrow> char" where
  "lower_char c = (if is_upper c then char_of ((of_char c :: nat) + 32) else c)"

definition lower :: "string \<Rightarrow> string" where
  "lower s = map lower_char s"

text \<open>\<open>needle in hay\<close> on strings: \<open>needle\<close> occurs in \<open>hay\<close> as a contiguous run.\<close>

fun str_contains :: "string \<Rightarrow> string \<Rightarrow> bool" where
  "str_contains needle [] = (needle = [])"
| "str_contains needle (c # cs) = (prefix needle (c # cs) \<or> str_contains needle cs)"

text \<open>\<open>s.endswith(suf)\<close>.\<close>

definition endswith :: "string \<Rightarrow> string \<Rightarrow> bool" where
  "endswith s suf = (length suf \<le> length s \<and> drop (length s - length suf) s = suf)"

section \<open>Exceptions\<close>

text \<open>
  A raised exception is a value. \<open>ValueError\<close> and \<open>TypeError\<close> are the two classes the
  scope check meets; \<open>Exception\<close> stands for every other class derived from Python's
  \<open>Exception\<close>, \<open>BaseException\<close> for the classes that are not (\<open>KeyboardInterrupt\<close>,
  \<open>SystemExit\<close>), which a handler \<open>except Exception\<close> lets through. Each carries its
  message, what \<open>str(e)\<close> returns.
\<close>

datatype exn = ValueError string | TypeError string | Exception string | BaseException string

fun is_Exception :: "exn \<Rightarrow> bool" where
  "is_Exception (BaseException m) = False"
| "is_Exception e = True"

fun exn_str :: "exn \<Rightarrow> string" where
  "exn_str (ValueError m) = m"
| "exn_str (TypeError m) = m"
| "exn_str (Exception m) = m"
| "exn_str (BaseException m) = m"

section \<open>Configuration (config.py)\<close>

text \<open>
  The sections of \<open>OrchestratorConfig\<close> that the query pipeline reads. The LLM, server,
  logging and reporting sections configure collaborators that the model takes as
  parameters.
\<close>

record scope_config =
  allowed_ips :: "string list"
  allowed_domains :: "string list"
  strict_mode :: bool

record safety_config =
  require_confirmation :: bool
  dangerous_actions :: "string list"
  containerized_execution :: bool

record orchestrator_config =
  scope :: scope_config
  safety :: safety_config

text \<open>The defaults of \<open>ScopeConfig()\<close> and \<open>SafetyConfig()\<close>.\<close>

definition default_scope :: scope_config where
  "default_scope = \<lparr>allowed_ips = [], allowed_domains = [], strict_mode = True\<rparr>"

definition default_safety :: safety_config where
  "default_safety =
     \<lparr>require_confirmation = True,
      dangerous_actions = [''exploit'', ''payload'', ''inject''],
      containerized_execution = True\<rparr>"

definition default_config :: orchestrator_config where
  "default_config = \<lparr>scope = default_scope, safety = default_safety\<rparr>"

section \<open>The standard library's \<open>ipaddress\<close> objects\<close>

text \<open>
  \<open>_check_scope\<close> calls \<open>ipaddress.ip_network(s, strict=False)\<close> and
  \<open>ipaddress.ip_address(s)\<close>, then \<open>subnet_of\<close> and \<open>in\<close> on the objects they return.
  An address object is its version and its integer, here a word of the version's width.
  A network object built with \<open>strict=False\<close> is the parsed address and the prefix
  length; its \<open>network_address\<close> is the address with the host bits masked off, as the
  constructor computes it.
\<close>

datatype ip_address = IPv4Address "32 word" | IPv6Address "128 word"

datatype ip_network = IPv4Network "32 word" nat | IPv6Network "128 word" nat

text \<open>\<open>_ip_int_from_prefix\<close>: \<open>ALL_ONES ^ (ALL_ONES >> prefixlen)\<close>.\<close>

definition netmask :: "nat \<Rightarrow> 'a::len word" where
  "netmask prefixlen = (- 1) XOR (drop_bit prefixlen (- 1))"

text \<open>\<open>hostmask\<close>: \<open>netmask ^ ALL_ONES\<close>.\<close>

definition hostmask :: "nat \<Rightarrow> 'a::len word" where
  "hostmask prefixlen = netmask prefixlen XOR (- 1)"

text \<open>\<open>network_address\<close> under \<open>strict=False\<close>: \<open>packed & netmask\<close>.\<close>

definition network_address :: "'a::len word \<Rightarrow> nat \<Rightarrow> 'a word" where
  "network_address addr prefixlen = addr AND netmask prefixlen"

text \<open>\<open>broadcast_address\<close>: \<open>network_address | hostmask\<close>.\<close>

definition broadcast_address :: "'a::len word \<Rightarrow> nat \<Rightarrow> 'a word" where
  "broadcast_address addr prefixlen = network_address addr prefixlen OR hostmask prefixlen"

text \<open>
  \<open>a.subnet_of(b)\<close> (\<open>_is_subnet_of\<close>): networks of different versions raise
  \<open>TypeError\<close>; otherwise the address range of \<open>a\<close> must lie within that of \<open>b\<close>.
\<close>

fun subnet_of :: "ip_network \<Rightarrow> ip_network \<Rightarrow> exn + bool" where
  "subnet_of (IPv4Network a p) (IPv4Network b q) =
     Inr (network_address b q \<le> network_address a p \<and>
          broadcast_address b q \<ge> broadcast_address a p)"
| "subnet_of (IPv6Network a p) (IPv6Network b q) =
     Inr (network_address b q \<le> network_address a p \<and>
          broadcast_address b q \<ge> broadcast_address a p)"
| "subnet_of a b = Inl (TypeError ''not of the same version'')"

text \<open>
  \<open>ip in network\<close> (\<open>__contains__\<close>): false across versions, otherwise
  \<open>ip & netmask == network_address\<close>.
\<close>

fun net_contains :: "ip_network \<Rightarrow> ip_address \<Rightarrow> bool" where
  "net_contains (IPv4Network b q) (IPv4Address ip) =
     (ip AND netmask q = network_address b q)"
| "net_contains (IPv6Network b q) (IPv6Address ip) =
     (ip AND netmask q = network_address b q)"
| "net_contains n ip = False"

text \<open>The network a network object denotes: the set of addresses it contains.\<close>

definition hosts :: "ip_network \<Rightarrow> ip_address set" where
  "hosts n = {ip. net_contains n ip}"

text \<open>
  The two parsers are parameters of the model: each either returns an object or raises
  (\<open>ValueError\<close> for a string that is no address or network).
\<close>

record ipaddress_module =
  ip_network :: "string \<Rightarrow> exn + ip_network"
  ip_address :: "string \<Rightarrow> exn + ip_address"

section \<open>Scope enforcement (agent.py, \<open>_check_scope\<close>)\<close>

text \<open>
  The body of the \<open>try\<close> block for one allowed-IP entry. \<open>Inr True\<close> is
  \<open>return True\<close>, \<open>Inr False\<close> falls through to the next entry, \<open>Inl e\<close> is the exception
  raised inside the block.
\<close>

definition ip_rule_body :: "ipaddress_module \<Rightarrow> string \<Rightarrow> string \<Rightarrow> exn + bool" where
  "ip_rule_body lib target allowed_ip =
     (if CHR ''/'' \<in> set allowed_ip then
        (case ip_network lib allowed_ip of
           Inl e \<Rightarrow> Inl e
         | Inr network \<Rightarrow>
             if CHR ''/'' \<in> set target then
               (case ip_network lib target of
                  Inl e \<Rightarrow> Inl e
                | Inr target_net \<Rightarrow> subnet_of target_net network)
             else
               (case ip_address lib target of
                  Inl e \<Rightarrow> Inl e
                | Inr target_ip \<Rightarrow> Inr (net_contains network target_ip)))
      else Inr (target = allowed_ip))"

text \<open>
  The loop over \<open>allowed_ips\<close>: \<open>except ValueError: pass\<close> goes on with the next entry,
  any other exception leaves \<open>_check_scope\<close>.
\<close>

fun check_ip_rules :: "ipaddress_module \<Rightarrow> string \<Rightarrow> string list \<Rightarrow> exn + bool" where
  "check_ip_rules lib target [] = Inr False"
| "check_ip_rules lib target (allowed_ip # rest) =
     (case ip_rule_body lib target allowed_ip of
        Inr True \<Rightarrow> Inr True
      | Inr False \<Rightarrow> check_ip_rules lib target rest
      | Inl (ValueError m) \<Rightarrow> check_ip_rules lib target rest
      | Inl e \<Rightarrow> Inl e)"

text \<open>One allowed-domain entry: equality, or the target ends with a dot and the entry.\<close>

definition domain_rule :: "string \<Rightarrow> string \<Rightarrow> bool" where
  "domain_rule target allowed_domain =
     (target = allowed_domain \<or> endswith target (''.'' @ allowed_domain))"

fun check_domain_rules :: "string \<Rightarrow> string list \<Rightarrow> bool" where
  "check_domain_rules target [] = False"
| "check_domain_rules target (allowed_domain # rest) =
     (if domain_rule target allowed_domain then True else check_domain_rules target rest)"

definition check_scope :: "ipaddress_module \<Rightarrow> orchestrator_config \<Rightarrow> string \<Rightarrow> exn + bool" where
  "check_scope lib config target =
     (if \<not> strict_mode (scope config) then Inr True
      else
        (case check_ip_rules lib target (allowed_ips (scope config)) of
           Inl e \<Rightarrow> Inl e
         | Inr True \<Rightarrow> Inr True
         | Inr False \<Rightarrow> Inr (check_domain_rules target (allowed_domains (scope config)))))"

section \<open>The safety gate (agent.py, \<open>_is_dangerous_action\<close>)\<close>

fun keyword_loop :: "string list \<Rightarrow> string \<Rightarrow> bool" where
  "keyword_loop [] query_lower = False"
| "keyword_loop (keyword # rest) query_lower =
     (if str_contains keyword query_lower then True else keyword_loop rest query_lower)"

definition is_dangerous_action :: "orchestrator_config \<Rightarrow> string \<Rightarrow> bool" where
  "is_dangerous_action config query =
     (let query_lower = lower query
      in keyword_loop (dangerous_actions (safety config)) query_lower)"

text \<open>
  The specification's wording of the same check, for comparison: a case-insensitive
  substring match of the text against each configured keyword.
\<close>

definition is_dangerous_spec :: "string list \<Rightarrow> string \<Rightarrow> bool" where
  "is_dangerous_spec keyword_list text =
     list_ex (\<lambda>keyword. str_contains (lower keyword) (lower text)) keyword_list"

section \<open>Regular expressions (the standard library's \<open>re\<close>)\<close>

text \<open>
  \<open>_extract_target\<close> gives two patterns to \<open>re.findall\<close>. A pattern is a value of
  \<open>regex\<close>; the constructors are the constructs the two patterns use. Matching is
  backtracking search: \<open>matches r p\<close> lists, in the order in which the search tries them,
  the positions at which a match of \<open>r\<close> that starts at position \<open>p\<close> can end. The first
  element is the match the search returns; an empty list means no match at \<open>p\<close>.

  A position is the character before it (none at the start of the text) and the text
  from it on.
\<close>

datatype char_class = Digit | Alnum | AlnumHyphen | Alpha

fun in_class :: "char_class \<Rightarrow> char \<Rightarrow> bool" where
  "in_class Digit c = is_digit c"
| "in_class Alnum c = is_alnum c"
| "in_class AlnumHyphen c = (is_alnum c \<or> c = CHR ''-'')"
| "in_class Alpha c = is_alpha c"

datatype regex =
    Lit char
  | Class char_class
  | WordBoundary
  | Seq regex regex
  | Repeat regex nat "nat option"

type_synonym pos = "char option \<times> string"

text \<open>\<open>\w\<close>: a letter, a digit or the underscore.\<close>

definition is_word :: "char \<Rightarrow> bool" where
  "is_word c = (is_alnum c \<or> c = CHR ''_'')"

text \<open>
  \<open>\b\<close>: exactly one of the characters before and after the position is a word
  character; the start and the end of the text count as non-word.
\<close>

fun at_word_boundary :: "pos \<Rightarrow> bool" where
  "at_word_boundary (prev, rest) =
     ((case prev of None \<Rightarrow> False | Some c \<Rightarrow> is_word c)
      \<noteq> (case rest of [] \<Rightarrow> False | c # cs \<Rightarrow> is_word c))"

fun match_char :: "(char \<Rightarrow> bool) \<Rightarrow> pos \<Rightarrow> pos list" where
  "match_char ok (prev, []) = []"
| "match_char ok (prev, c # cs) = (if ok c then [(Some c, cs)] else [])"

text \<open>
  A greedy repetition with at least \<open>lo\<close> and at most \<open>hi\<close> iterations of a body \<open>f\<close>: one
  more iteration is tried first, with everything that can follow it, and stopping here
  (allowed once \<open>lo\<close> iterations are done) is tried last.
\<close>

fun rep_greedy :: "(pos \<Rightarrow> pos list) \<Rightarrow> nat \<Rightarrow> nat \<Rightarrow> pos \<Rightarrow> pos list" where
  "rep_greedy f lo 0 p = (if lo = 0 then [p] else [])"
| "rep_greedy f lo (Suc hi) p =
     concat (map (rep_greedy f (lo - 1) hi) (f p)) @ (if lo = 0 then [p] else [])"

text \<open>
  A repetition without an upper bound (\<open>+\<close>, \<open>{2,}\<close>) runs at most as many iterations as
  there are characters left: in both patterns of this program the body of such a
  repetition consumes at least one character.
\<close>

primrec matches :: "regex \<Rightarrow> pos \<Rightarrow> pos list" where
  "matches (Lit c) = match_char (\<lambda>x. x = c)"
| "matches (Class k) = match_char (in_class k)"
| "matches WordBoundary = (\<lambda>p. if at_word_boundary p then [p] else [])"
| "matches (Seq r1 r2) = (\<lambda>p. concat (map (matches r2) (matches r1 p)))"
| "matches (Repeat r lo hi) =
     (\<lambda>p. rep_greedy (matches r) lo (case hi of Some h \<Rightarrow> h | None \<Rightarrow> length (snd p)) p)"

text \<open>
  \<open>re.findall\<close> for a pattern without capturing groups: the matched texts, scanning from
  the left; after a match the scan goes on where the match ended, and where no match
  starts it moves on by one character. (After an empty match the scan moves on by one
  character as well; neither pattern of this program can match the empty string.)
\<close>

function findall_from :: "regex \<Rightarrow> char option \<Rightarrow> string \<Rightarrow> string list" where
  "findall_from r prev s =
     (case matches r (prev, s) of
        [] \<Rightarrow> (case s of [] \<Rightarrow> [] | c # cs \<Rightarrow> findall_from r (Some c) cs)
      | (prev', rest') # alternatives \<Rightarrow>
          (let n = length s - length rest' in
           take n s #
             (if n = 0 then (case s of [] \<Rightarrow> [] | c # cs \<Rightarrow> findall_from r (Some c) cs)
              else findall_from r prev' rest')))"
  by pat_completeness auto
termination
  by (relation "measure (\<lambda>(r, prev, s). length s)") auto

definition findall :: "regex \<Rightarrow> string \<Rightarrow> string list" where
  "findall r s = findall_from r None s"

section \<open>Target extraction (agent.py, \<open>_extract_target\<close>)\<close>

text \<open>
  Both patterns are a core between two \<open>\b\<close>. The core of the first:
  \<^verbatim>\<open>(?:\d{1,3}\.){3}\d{1,3}(?:/\d{1,2})?\<close>
\<close>

definition ip_core :: regex where
  "ip_core =
     Seq (Repeat (Seq (Repeat (Class Digit) 1 (Some 3)) (Lit (CHR ''.''))) 3 (Some 3))
    (Seq (Repeat (Class Digit) 1 (Some 3))
         (Repeat (Seq (Lit (CHR ''/'')) (Repeat (Class Digit) 1 (Some 2))) 0 (Some 1)))"

text \<open>\<^verbatim>\<open>\b(?:\d{1,3}\.){3}\d{1,3}(?:/\d{1,2})?\b\<close>\<close>

definition ip_pattern :: regex where
  "ip_pattern = Seq WordBoundary (Seq ip_core WordBoundary)"

text \<open>
  The core of the second:
  \<^verbatim>\<open>(?:[a-zA-Z0-9](?:[a-zA-Z0-9-]{0,61}[a-zA-Z0-9])?\.)+[a-zA-Z]{2,}\<close>
\<close>

definition domain_label :: regex where
  "domain_label =
     Seq (Class Alnum)
    (Seq (Repeat (Seq (Repeat (Class AlnumHyphen) 0 (Some 61)) (Class Alnum)) 0 (Some 1))
         (Lit (CHR ''.'')))"

definition domain_core :: regex where
  "domain_core = Seq (Repeat domain_label 1 None) (Repeat (Class Alpha) 2 None)"

text \<open>\<^verbatim>\<open>\b(?:[a-zA-Z0-9](?:[a-zA-Z0-9-]{0,61}[a-zA-Z0-9])?\.)+[a-zA-Z]{2,}\b\<close>\<close>

definition domain_pattern :: regex where
  "domain_pattern = Seq WordBoundary (Seq domain_core WordBoundary)"

definition excluded :: "string list" where
  "excluded = [''example.com'', ''localhost'', ''127.0.0.1'']"

text \<open>The loop over the domain matches: the first one that is not excluded.\<close>

fun first_not_excluded :: "string list \<Rightarrow> string option" where
  "first_not_excluded [] = None"
| "first_not_excluded (domain # rest) =
     (if domain \<notin> set excluded then Some domain else first_not_excluded rest)"

definition extract_target :: "string \<Rightarrow> string option" where
  "extract_target query =
     (case findall ip_pattern query of
        ip_match # others \<Rightarrow> Some ip_match
      | [] \<Rightarrow>
          (case findall domain_pattern query of
             [] \<Rightarrow> None
           | domain # others \<Rightarrow> first_not_excluded (domain # others)))"

section \<open>Session memory (memory.py)\<close>

text \<open>
  \<open>Finding\<close>, \<open>ToolExecution\<close> and \<open>SessionMemory\<close>, field by field. Values of type \<open>Any\<close>
  in the evidence and context dictionaries are carried as their text. The fields are
  prefixed where the Python name would clash with a variable of the model.
\<close>

record finding =
  finding_id :: string
  finding_timestamp :: string
  finding_target :: string
  finding_type :: string
  finding_severity :: string
  finding_description :: string
  finding_evidence :: "(string \<times> string) list"
  finding_recommendations :: "string list"

record tool_execution =
  exec_timestamp :: string
  exec_tool :: string
  exec_command :: string
  exec_target :: string
  exec_output :: string
  exec_exit_code :: int
  exec_duration_seconds :: int

record session_memory =
  session_id :: string
  created_at :: string
  updated_at :: string
  conversation_history :: "(string \<times> string) list"
  findings :: "finding list"
  tool_executions :: "tool_execution list"
  session_context :: "(string \<times> string) list"

text \<open>\<open>MemoryManager.current_session\<close>: a session or \<open>None\<close>.\<close>

type_synonym memory = "session_memory option"

text \<open>
  The clock: what \<open>datetime.now()\<close> gives in the three formats the code asks for. One
  reading serves a whole call of \<open>process_query\<close>.
\<close>

record clock =
  now_isoformat :: string
  now_timestamp :: string
  now_strftime :: string

definition create_session :: "clock \<Rightarrow> session_memory" where
  "create_session clk =
     \<lparr>session_id = ''session_'' @ now_strftime clk,
      created_at = now_isoformat clk,
      updated_at = now_isoformat clk,
      conversation_history = [],
      findings = [],
      tool_executions = [],
      session_context = []\<rparr>"

text \<open>\<open>if self.current_session is None: self.create_session()\<close>, the opening of every adder.\<close>

definition ensure_session :: "clock \<Rightarrow> memory \<Rightarrow> session_memory" where
  "ensure_session clk mem = (case mem of None \<Rightarrow> create_session clk | Some s \<Rightarrow> s)"

definition add_conversation :: "clock \<Rightarrow> string \<Rightarrow> string \<Rightarrow> memory \<Rightarrow> memory" where
  "add_conversation clk role content mem =
     (let s = ensure_session clk mem
      in Some (s\<lparr>conversation_history := conversation_history s @ [(role, content)],
                 updated_at := now_isoformat clk\<rparr>))"

definition add_finding :: "clock \<Rightarrow> finding \<Rightarrow> memory \<Rightarrow> memory" where
  "add_finding clk f mem =
     (let s = ensure_session clk mem
      in Some (s\<lparr>findings := findings s @ [f], updated_at := now_isoformat clk\<rparr>))"

definition add_tool_execution :: "clock \<Rightarrow> tool_execution \<Rightarrow> memory \<Rightarrow> memory" where
  "add_tool_execution clk execution mem =
     (let s = ensure_session clk mem
      in Some (s\<lparr>tool_executions := tool_executions s @ [execution],
                 updated_at := now_isoformat clk\<rparr>))"

text \<open>
  \<open>save_session()\<close> without a session id: with no current session it returns at once,
  otherwise it stamps the session and writes it to disk (the file is outside the model;
  a failure to write is caught inside \<open>save_session\<close>).
\<close>

definition save_session :: "clock \<Rightarrow> memory \<Rightarrow> memory" where
  "save_session clk mem =
     (case mem of None \<Rightarrow> None | Some s \<Rightarrow> Some (s\<lparr>updated_at := now_isoformat clk\<rparr>))"

text \<open>Python's \<open>xs[-n:]\<close>.\<close>

definition last_n :: "nat \<Rightarrow> 'a list \<Rightarrow> 'a list" where
  "last_n n xs = drop (length xs - n) xs"

record llm_context =
  lc_conversation_history :: "(string \<times> string) list"
  lc_recent_findings :: "finding list"
  lc_recent_tool_executions :: "tool_execution list"
  lc_total_findings :: nat
  lc_session_id :: string
  lc_context :: "(string \<times> string) list"

text \<open>\<open>get_context()\<close>: \<open>None\<close> here is the empty dictionary it returns without a session.\<close>

definition get_context :: "memory \<Rightarrow> llm_context option" where
  "get_context mem =
     (case mem of
        None \<Rightarrow> None
      | Some s \<Rightarrow>
          Some \<lparr>lc_conversation_history = last_n 10 (conversation_history s),
                lc_recent_findings = last_n 5 (findings s),
                lc_recent_tool_executions = last_n 5 (tool_executions s),
                lc_total_findings = length (findings s),
                lc_session_id = session_id s,
                lc_context = session_context s\<rparr>)"

text \<open>The findings and tool executions of the current session (none without a session).\<close>

definition session_findings :: "memory \<Rightarrow> finding list" where
  "session_findings mem = (case mem of None \<Rightarrow> [] | Some s \<Rightarrow> findings s)"

definition session_tool_executions :: "memory \<Rightarrow> tool_execution list" where
  "session_tool_executions mem = (case mem of None \<Rightarrow> [] | Some s \<Rightarrow> tool_executions s)"

section \<open>Plugins (plugins/base.py)\<close>

text \<open>
  The dictionaries that plugins exchange with the agent, as records of the keys the agent
  reads. In a result dictionary \<open>None\<close> is an absent key; \<open>pr_raw_result\<close> holds
  \<open>str(raw_result)\<close>, the only use the agent makes of it; keys the agent never reads are
  left out. The value under \<open>findings\<close> is a list of payload dictionaries, as every plugin
  of the repository builds it.

  The values of a payload come from the tools and are of any type. A key of a payload is
  absent, or holds a value of the type that the field of \<open>Finding\<close> declares, or holds a
  value that the \<open>Finding\<close> model rejects (\<open>None\<close>, or a number where a string is
  declared).
\<close>

datatype 'a entry = Absent | Present 'a | Rejected

record finding_data =
  fd_type :: "string entry"
  fd_target :: "string entry"
  fd_severity :: "string entry"
  fd_description :: "string entry"
  fd_evidence :: "(string \<times> string) list entry"
  fd_recommendations :: "string list entry"

record plugin_result =
  pr_success :: "bool option"
  pr_plugin :: "string option"
  pr_error :: "string option"
  pr_findings :: "finding_data list option"
  pr_raw_result :: "string option"
  pr_suggested_exploits :: "string list option"

record open_port =
  op_port :: "string option"
  op_service :: string
  op_version :: string

text \<open>The execution context built once per query and handed to every plugin.\<close>

record exec_context =
  ctx_query :: string
  ctx_target :: "string option"
  ctx_findings :: "finding list"
  ctx_open_ports :: "open_port list"
  ctx_conversation_history :: "(string \<times> string) list"

text \<open>
  A plugin: its name, its \<open>matches\<close> predicate and its \<open>execute\<close>, which returns a result
  dictionary or raises.
\<close>

record plugin =
  plugin_name :: string
  plugin_matches :: "string \<Rightarrow> bool"
  plugin_execute :: "exec_context \<Rightarrow> exn + plugin_result"

section \<open>The Nmap plugin (plugins/nmap_plugin.py)\<close>

text \<open>
  What the plugin reads of a scan result of \<open>NmapWrapper\<close>: the \<open>success\<close> key, the list
  under \<open>open_ports\<close>, and the text of the whole dictionary. The wrapper's three scans
  are parameters.
\<close>

record port_info =
  pi_port :: "string option"
  pi_service :: "string option"
  pi_version :: "string option"

record scan_result =
  sr_success :: "bool option"
  sr_open_ports :: "port_info list option"
  sr_text :: string

record nmap_wrapper =
  quick_scan :: "string \<Rightarrow> exn + scan_result"
  full_scan :: "string \<Rightarrow> exn + scan_result"
  scan_http_services :: "string \<Rightarrow> exn + scan_result"

text \<open>\<open>dict.get(key, default)\<close> on an optional key.\<close>

definition get_or :: "'a \<Rightarrow> 'a option \<Rightarrow> 'a" where
  "get_or dflt v = (case v of None \<Rightarrow> dflt | Some x \<Rightarrow> x)"

definition nmap_matches :: "string \<Rightarrow> bool" where
  "nmap_matches query =
     (let query_lower = lower query;
          nmap_keywords = [''scan'', ''port'', ''nmap'', ''service'', ''open port'', ''port scan'']
      in list_ex (\<lambda>keyword. str_contains keyword query_lower) nmap_keywords)"

definition nmap_result :: "string \<Rightarrow> scan_result \<Rightarrow> plugin_result" where
  "nmap_result tgt result =
     \<lparr>pr_success = Some (get_or True (sr_success result)),
      pr_plugin = Some ''nmap'',
      pr_error = None,
      pr_findings =
        Some (case sr_open_ports result of
                None \<Rightarrow> []
              | Some ports \<Rightarrow>
                  map (\<lambda>port_info.
                         \<lparr>fd_type = Present ''open_port'',
                          fd_target = Present tgt,
                          fd_severity = Present ''info'',
                          fd_description = Absent,
                          fd_evidence = Absent,
                          fd_recommendations = Absent\<rparr>) ports),
      pr_raw_result = Some (sr_text result),
      pr_suggested_exploits = None\<rparr>"

definition nmap_execute :: "nmap_wrapper \<Rightarrow> exec_context \<Rightarrow> exn + plugin_result" where
  "nmap_execute nmap context =
     (case ctx_target context of
        None \<Rightarrow>
          Inr \<lparr>pr_success = Some False, pr_plugin = None,
               pr_error = Some ''No target specified'', pr_findings = None,
               pr_raw_result = None, pr_suggested_exploits = None\<rparr>
      | Some tgt \<Rightarrow>
          if tgt = [] then
            Inr \<lparr>pr_success = Some False, pr_plugin = None,
                 pr_error = Some ''No target specified'', pr_findings = None,
                 pr_raw_result = None, pr_suggested_exploits = None\<rparr>
          else
            (let q = lower (ctx_query context);
                 scan =
                   (if str_contains ''full'' q \<or> str_contains ''all ports'' q
                    then full_scan nmap
                    else if str_contains ''http'' q \<or> str_contains ''web'' q
                    then scan_http_services nmap
                    else quick_scan nmap)
             in case scan tgt of
                  Inl e \<Rightarrow> Inl e
                | Inr result \<Rightarrow> Inr (nmap_result tgt result)))"

definition nmap_plugin :: "nmap_wrapper \<Rightarrow> plugin" where
  "nmap_plugin nmap =
     \<lparr>plugin_name = ''nmap'', plugin_matches = nmap_matches,
      plugin_execute = nmap_execute nmap\<rparr>"

section \<open>The agent (agent.py)\<close>

text \<open>
  The agent holds its configuration and its plugins. Its collaborators are parameters:
  the language model (\<open>llm.generate\<close> returns text or raises), the \<open>ipaddress\<close> parsers,
  the clock, and Python's \<open>str\<close> on a result dictionary.
\<close>

record agent =
  agent_config :: orchestrator_config
  agent_plugins :: "plugin list"
  agent_llm :: "string \<Rightarrow> llm_context option \<Rightarrow> exn + string"
  agent_ipaddress :: ipaddress_module
  agent_clock :: clock
  agent_str :: "plugin_result \<Rightarrow> string"

text \<open>The result envelopes, one constructor for each \<open>return\<close> of \<open>process_query\<close>.\<close>

datatype envelope =
    OutOfScope string string
  | RequiresConfirmation string string
  | Completed string "string option" "string list" "plugin_result list" string string
  | Failed string string

text \<open>The keys of an envelope, read as \<open>result.get(key)\<close> reads them.\<close>

fun success :: "envelope \<Rightarrow> bool" where
  "success (OutOfScope error_msg tgt) = False"
| "success (RequiresConfirmation action message) = False"
| "success (Completed q tgt plugins_executed results response llm_planning) = True"
| "success (Failed error_msg q) = False"

fun requires_confirmation_key :: "envelope \<Rightarrow> bool option" where
  "requires_confirmation_key (RequiresConfirmation action message) = Some True"
| "requires_confirmation_key e = None"

fun error_key :: "envelope \<Rightarrow> string option" where
  "error_key (OutOfScope error_msg tgt) = Some error_msg"
| "error_key (Failed error_msg q) = Some error_msg"
| "error_key e = None"

fun results_key :: "envelope \<Rightarrow> plugin_result list option" where
  "results_key (Completed q tgt plugins_executed results response llm_planning) = Some results"
| "results_key e = None"

fun plugins_executed_key :: "envelope \<Rightarrow> string list option" where
  "plugins_executed_key (Completed q tgt plugins_executed results response llm_planning) =
     Some plugins_executed"
| "plugins_executed_key e = None"

fun is_out_of_scope :: "envelope \<Rightarrow> bool" where
  "is_out_of_scope (OutOfScope error_msg tgt) = True"
| "is_out_of_scope e = False"

text \<open>Truthiness of an optional string: \<open>None\<close> and the empty string are false.\<close>

definition truthy :: "string option \<Rightarrow> bool" where
  "truthy v = (case v of None \<Rightarrow> False | Some t \<Rightarrow> t \<noteq> [])"

text \<open>\<open>target or dflt\<close>.\<close>

definition target_or :: "string option \<Rightarrow> string \<Rightarrow> string" where
  "target_or target dflt =
     (case target of None \<Rightarrow> dflt | Some t \<Rightarrow> if t = [] then dflt else t)"

definition nl :: string where
  "nl = [CHR 0x0A]"

text \<open>\<open>sep.join(parts)\<close>.\<close>

fun join :: "string \<Rightarrow> string list \<Rightarrow> string" where
  "join sep [] = []"
| "join sep [x] = x"
| "join sep (x # y # ys) = x @ sep @ join sep (y # ys)"

text \<open>\<open>str(n)\<close> for a length.\<close>

function str_nat :: "nat \<Rightarrow> string" where
  "str_nat n =
     (if n < 10 then [char_of (48 + n)] else str_nat (n div 10) @ [char_of (48 + n mod 10)])"
  by pat_completeness auto
termination
  by (relation "measure (\<lambda>n. n)") auto

definition extract_open_ports_from_memory :: "memory \<Rightarrow> open_port list" where
  "extract_open_ports_from_memory mem =
     (case mem of
        None \<Rightarrow> []
      | Some s \<Rightarrow>
          map (\<lambda>f. \<lparr>op_port = map_of (finding_evidence f) ''port'',
                     op_service = get_or [] (map_of (finding_evidence f) ''service''),
                     op_version = get_or [] (map_of (finding_evidence f) ''version'')\<rparr>)
              (filter (\<lambda>f. finding_type f = ''open_port'') (findings s)))"

definition build_planning_prompt :: "string \<Rightarrow> exec_context \<Rightarrow> string" where
  "build_planning_prompt query context =
     join nl
       ([''You are an AI assistant helping with penetration testing operations.'',
         ''Analyze the user's request and determine what tools and actions are needed.'',
         [],
         ''User query: '' @ query]
        @ (case ctx_target context of
             None \<Rightarrow> []
           | Some t \<Rightarrow> if t = [] then [] else [''Target: '' @ t])
        @ (if ctx_findings context \<noteq> []
           then (nl @ ''Recent findings:'')
                # map (\<lambda>f. ''- '' @ finding_type f @ '': '' @ finding_description f)
                      (take 5 (ctx_findings context))
           else [])
        @ [nl @ ''What tools should be executed? Provide a brief plan.''])"

text \<open>The check mark and the cross of the summary, in UTF-8.\<close>

definition check_mark :: string where
  "check_mark = [CHR 0xE2, CHR 0x9C, CHR 0x93]"

definition cross_mark :: string where
  "cross_mark = [CHR 0xE2, CHR 0x9C, CHR 0x97]"

definition result_lines :: "plugin_result \<Rightarrow> string list" where
  "result_lines result =
     [(if get_or False (pr_success result) then check_mark else cross_mark)
        @ '' '' @ get_or ''unknown'' (pr_plugin result)]
     @ (case pr_findings result of
          None \<Rightarrow> []
        | Some fs \<Rightarrow> [''  Found '' @ str_nat (length fs) @ '' finding(s)''])
     @ (case pr_suggested_exploits result of
          None \<Rightarrow> []
        | Some es \<Rightarrow> [''  Suggested '' @ str_nat (length es) @ '' exploit(s)''])"

definition generate_response_summary ::
  "string \<Rightarrow> plugin_result list \<Rightarrow> string \<Rightarrow> memory \<Rightarrow> string" where
  "generate_response_summary query results llm_planning mem =
     join nl
       ([''Processed query: '' @ query @ nl]
        @ (if results \<noteq> []
           then ''Execution results:'' # concat (map result_lines results)
           else [''No matching plugins found for this query.''])
        @ (let findings_count = length (session_findings mem)
           in if findings_count > 0
              then [nl @ ''Total findings in session: '' @ str_nat findings_count,
                    ''Consider running additional scans or generating a report.'']
              else []))"

section \<open>Recording findings and tool executions (agent.py, \<open>process_query\<close>)\<close>

text \<open>\<open>finding_data.get(key, dflt)\<close> for a key that is absent or holds a value of the right type.\<close>

definition entry_or :: "'a \<Rightarrow> 'a entry \<Rightarrow> 'a" where
  "entry_or dflt e = (case e of Present v \<Rightarrow> v | other \<Rightarrow> dflt)"

definition accepted :: "'a entry \<Rightarrow> bool" where
  "accepted e = (case e of Rejected \<Rightarrow> False | other \<Rightarrow> True)"

text \<open>
  \<open>Finding(...)\<close> validates the values it is given (memory.py, a pydantic model) and
  raises when one of them is rejected. The identifier and the timestamp are strings the
  agent builds; the target is \<open>target or finding_data.get("target", "")\<close>, so the payload's
  target is passed on only without a pipeline target; the other five values are the
  payload's.
\<close>

definition payload_accepted :: "string option \<Rightarrow> finding_data \<Rightarrow> bool" where
  "payload_accepted target finding_data =
     ((truthy target \<or> accepted (fd_target finding_data))
      \<and> accepted (fd_type finding_data)
      \<and> accepted (fd_severity finding_data)
      \<and> accepted (fd_description finding_data)
      \<and> accepted (fd_evidence finding_data)
      \<and> accepted (fd_recommendations finding_data))"

text \<open>The \<open>Finding\<close> built from a payload whose values are accepted.\<close>

definition build_finding :: "clock \<Rightarrow> string \<Rightarrow> string option \<Rightarrow> finding_data \<Rightarrow> finding" where
  "build_finding clk name target finding_data =
     \<lparr>finding_id = name @ ''_'' @ now_timestamp clk,
      finding_timestamp = now_isoformat clk,
      finding_target = target_or target (entry_or [] (fd_target finding_data)),
      finding_type = entry_or ''unknown'' (fd_type finding_data),
      finding_severity = entry_or ''info'' (fd_severity finding_data),
      finding_description = entry_or [] (fd_description finding_data),
      finding_evidence = entry_or [] (fd_evidence finding_data),
      finding_recommendations = entry_or [] (fd_recommendations finding_data)\<rparr>"

text \<open>pydantic's \<open>ValidationError\<close> is a \<open>ValueError\<close>.\<close>

definition validation_error :: exn where
  "validation_error = ValueError ''validation error for Finding''"

definition make_finding :: "clock \<Rightarrow> string \<Rightarrow> string option \<Rightarrow> finding_data \<Rightarrow> exn + finding" where
  "make_finding clk name target finding_data =
     (if payload_accepted target finding_data
      then Inr (build_finding clk name target finding_data)
      else Inl validation_error)"

text \<open>
  The loop over \<open>plugin_result["findings"]\<close>: the exception of a rejected payload ends it;
  the findings appended before stay in the session.
\<close>

fun record_findings ::
  "clock \<Rightarrow> string \<Rightarrow> string option \<Rightarrow> finding_data list \<Rightarrow> memory \<Rightarrow> exn option \<times> memory" where
  "record_findings clk name target [] mem = (None, mem)"
| "record_findings clk name target (finding_data # rest) mem =
     (case make_finding clk name target finding_data of
        Inl e \<Rightarrow> (Some e, mem)
      | Inr f \<Rightarrow> record_findings clk name target rest (add_finding clk f mem))"

text \<open>
  The \<open>ToolExecution\<close> of a plugin result. All its values are strings and numbers that
  the agent builds, so its validation cannot fail.
\<close>

definition make_execution ::
  "clock \<Rightarrow> string \<Rightarrow> string option \<Rightarrow> string \<Rightarrow> string \<Rightarrow> plugin_result \<Rightarrow> tool_execution" where
  "make_execution clk name target raw output plugin_result =
     \<lparr>exec_timestamp = now_isoformat clk,
      exec_tool = name,
      exec_command = raw,
      exec_target = target_or target [],
      exec_output = output,
      exec_exit_code = (if get_or False (pr_success plugin_result) then 0 else 1),
      exec_duration_seconds = 0\<rparr>"

text \<open>
  What the agent records of one plugin result: its findings, then its execution. An
  exception raised while recording the findings skips the execution record; it comes
  out with the memory as it is then.
\<close>

definition record_result ::
  "agent \<Rightarrow> string \<Rightarrow> string option \<Rightarrow> plugin_result \<Rightarrow> memory \<Rightarrow> exn option \<times> memory" where
  "record_result ag name target plugin_result mem =
     (case (case pr_findings plugin_result of
              None \<Rightarrow> (None, mem)
            | Some payloads \<Rightarrow> record_findings (agent_clock ag) name target payloads mem) of
        (Some e, mem1) \<Rightarrow> (Some e, mem1)
      | (None, mem1) \<Rightarrow>
          (case pr_raw_result plugin_result of
             None \<Rightarrow> (None, mem1)
           | Some raw \<Rightarrow>
               (None,
                add_tool_execution (agent_clock ag)
                  (make_execution (agent_clock ag) name target raw
                     (agent_str ag plugin_result) plugin_result)
                  mem1)))"

text \<open>The result the handler \<open>except Exception as e\<close> of the plugin loop appends.\<close>

definition failure_result :: "string \<Rightarrow> exn \<Rightarrow> plugin_result" where
  "failure_result name e =
     \<lparr>pr_success = Some False, pr_plugin = Some name, pr_error = Some (exn_str e),
      pr_findings = None, pr_raw_result = None, pr_suggested_exploits = None\<rparr>"

text \<open>
  The loop over the matching plugins. The \<open>try\<close> block holds the call of \<open>execute\<close>,
  \<open>results.append(plugin_result)\<close> and the recording, in this order. An exception of a
  class derived from \<open>Exception\<close>, raised by \<open>execute\<close> or while recording, makes the
  handler append a failure result, and the loop goes on; in the second case the plugin's
  own result is in the list already. Any other exception leaves the loop.
\<close>

fun run_plugins ::
  "agent \<Rightarrow> string option \<Rightarrow> exec_context \<Rightarrow> plugin list \<Rightarrow> plugin_result list \<Rightarrow> memory
     \<Rightarrow> (exn + plugin_result list) \<times> memory" where
  "run_plugins ag target context [] results mem = (Inr results, mem)"
| "run_plugins ag target context (p # ps) results mem =
     (case plugin_execute p context of
        Inr plugin_result \<Rightarrow>
          (case record_result ag (plugin_name p) target plugin_result mem of
             (None, mem1) \<Rightarrow>
               run_plugins ag target context ps (results @ [plugin_result]) mem1
           | (Some e, mem1) \<Rightarrow>
               if is_Exception e
               then run_plugins ag target context ps
                      (results @ [plugin_result, failure_result (plugin_name p) e]) mem1
               else (Inl e, mem1))
      | Inl e \<Rightarrow>
          if is_Exception e
          then run_plugins ag target context ps (results @ [failure_result (plugin_name p) e]) mem
          else (Inl e, mem))"

section \<open>The query pipeline (agent.py, \<open>process_query\<close>)\<close>

text \<open>
  The outer handler \<open>except Exception as e\<close>: a failure envelope and an error turn in the
  conversation; an exception of another class goes on to the caller.
\<close>

definition pipeline_handler ::
  "agent \<Rightarrow> string \<Rightarrow> exn \<Rightarrow> memory \<Rightarrow> (exn + envelope) \<times> memory" where
  "pipeline_handler ag query e mem =
     (if is_Exception e
      then (let error_msg = ''Error processing query: '' @ exn_str e
            in (Inr (Failed error_msg query),
                add_conversation (agent_clock ag) ''assistant'' error_msg mem))
      else (Inl e, mem))"

text \<open>The execution context of a query: \<open>context = {...}\<close>.\<close>

definition build_context :: "string \<Rightarrow> string option \<Rightarrow> memory \<Rightarrow> exec_context" where
  "build_context query target mem =
     \<lparr>ctx_query = query,
      ctx_target = target,
      ctx_findings = session_findings mem,
      ctx_open_ports = extract_open_ports_from_memory mem,
      ctx_conversation_history =
        (case mem of None \<Rightarrow> [] | Some s \<Rightarrow> last_n 5 (conversation_history s))\<rparr>"

text \<open>From the building of the execution context to the final envelope.\<close>

definition dispatch ::
  "agent \<Rightarrow> string \<Rightarrow> string option \<Rightarrow> memory \<Rightarrow> (exn + envelope) \<times> memory" where
  "dispatch ag query target mem =
     (let context = build_context query target mem;
          llm_context = get_context mem;
          planning_prompt = build_planning_prompt query context
      in case agent_llm ag planning_prompt llm_context of
           Inl e \<Rightarrow> pipeline_handler ag query e mem
         | Inr llm_response \<Rightarrow>
             (let matching_plugins = filter (\<lambda>p. plugin_matches p query) (agent_plugins ag)
              in case run_plugins ag target context matching_plugins [] mem of
                   (Inl e, mem') \<Rightarrow> pipeline_handler ag query e mem'
                 | (Inr results, mem') \<Rightarrow>
                     (let response = generate_response_summary query results llm_response mem'
                      in (Inr (Completed query target (map plugin_name matching_plugins)
                                 results response llm_response),
                          save_session (agent_clock ag)
                            (add_conversation (agent_clock ag) ''assistant'' response mem')))))"

text \<open>The safety gate, then dispatch.\<close>

definition safety_gate ::
  "agent \<Rightarrow> string \<Rightarrow> string option \<Rightarrow> bool option \<Rightarrow> memory \<Rightarrow> (exn + envelope) \<times> memory" where
  "safety_gate ag query target require_confirmation_arg mem =
     (if is_dangerous_action (agent_config ag) query
         \<and> (case require_confirmation_arg of
              None \<Rightarrow> require_confirmation (safety (agent_config ag))
            | Some confirm \<Rightarrow> confirm)
      then (Inr (RequiresConfirmation query
                  ''This action requires explicit confirmation. Please confirm to proceed.''),
            mem)
      else dispatch ag query target mem)"

text \<open>
  \<open>process_query\<close>: the memory before the call goes in, the returned envelope (or the
  exception that leaves the call) and the memory after it come out.
\<close>

definition process_query ::
  "agent \<Rightarrow> string \<Rightarrow> bool option \<Rightarrow> memory \<Rightarrow> (exn + envelope) \<times> memory" where
  "process_query ag query require_confirmation_arg mem0 =
     (let mem1 = add_conversation (agent_clock ag) ''user'' query
                   (Some (ensure_session (agent_clock ag) mem0));
          target = extract_target query
      in case target of
           None \<Rightarrow> safety_gate ag query target require_confirmation_arg mem1
         | Some tgt \<Rightarrow>
             if tgt = [] then safety_gate ag query target require_confirmation_arg mem1
             else
               (case check_scope (agent_ipaddress ag) (agent_config ag) tgt of
                  Inl e \<Rightarrow> (Inl e, mem1)
                | Inr False \<Rightarrow>
                    (let error_msg = ''Target '' @ tgt @ '' is out of scope''
                     in (Inr (OutOfScope error_msg tgt),
                         add_conversation (agent_clock ag) ''assistant''
                           (''Error: '' @ error_msg) mem1))
                | Inr True \<Rightarrow> safety_gate ag query target require_confirmation_arg mem1))"

section \<open>Notions used in the statements\<close>

text \<open>A call of a parser raised \<open>ValueError\<close>.\<close>

definition is_ValueError :: "exn + 'a \<Rightarrow> bool" where
  "is_ValueError r = (case r of Inl (ValueError m) \<Rightarrow> True | other \<Rightarrow> False)"

text \<open>
  Parsing fails for a CIDR entry and a target: the entry does not parse, or it does and
  the target, read as a network when it contains \<open>/\<close> and as an address otherwise, does
  not.
\<close>

definition parse_failure :: "ipaddress_module \<Rightarrow> string \<Rightarrow> string \<Rightarrow> bool" where
  "parse_failure lib target allowed_ip =
     (case ip_network lib allowed_ip of
        Inl e \<Rightarrow> is_ValueError (ip_network lib allowed_ip)
      | Inr network \<Rightarrow>
          if CHR ''/'' \<in> set target then is_ValueError (ip_network lib target)
          else is_ValueError (ip_address lib target))"

text \<open>
  An entry that lets the loop over \<open>allowed_ips\<close> go on: its block falls through, or
  raises \<open>ValueError\<close>.
\<close>

definition skipped :: "exn + bool \<Rightarrow> bool" where
  "skipped r = (case r of Inr b \<Rightarrow> \<not> b | Inl (ValueError m) \<Rightarrow> True | Inl e \<Rightarrow> False)"

text \<open>The IP version of a network object (\<open>network.version\<close>).\<close>

fun version :: "ip_network \<Rightarrow> nat" where
  "version (IPv4Network a p) = 4"
| "version (IPv6Network a p) = 6"

text \<open>The memory with which \<open>process_query\<close> reaches the scope check: the query is logged.\<close>

definition logged :: "agent \<Rightarrow> string \<Rightarrow> memory \<Rightarrow> memory" where
  "logged ag query mem0 =
     add_conversation (agent_clock ag) ''user'' query (Some (ensure_session (agent_clock ag) mem0))"

text \<open>The per-call confirmation override, or the configured setting without one.\<close>

definition confirmation_required :: "agent \<Rightarrow> bool option \<Rightarrow> bool" where
  "confirmation_required ag require_confirmation_arg =
     (case require_confirmation_arg of
        None \<Rightarrow> require_confirmation (safety (agent_config ag))
      | Some confirm \<Rightarrow> confirm)"

text \<open>The query has no target, or its target is in scope.\<close>

definition passes_scope :: "agent \<Rightarrow> string \<Rightarrow> bool" where
  "passes_scope ag query =
     (case extract_target query of
        None \<Rightarrow> True
      | Some tgt \<Rightarrow>
          tgt = [] \<or> check_scope (agent_ipaddress ag) (agent_config ag) tgt = Inr True)"

text \<open>The query is not held back by the safety gate.\<close>

definition passes_safety :: "agent \<Rightarrow> string \<Rightarrow> bool option \<Rightarrow> bool" where
  "passes_safety ag query require_confirmation_arg =
     (\<not> (is_dangerous_action (agent_config ag) query
         \<and> confirmation_required ag require_confirmation_arg))"

text \<open>The plugins selected for a query, in registration order.\<close>

definition matching_plugins :: "agent \<Rightarrow> string \<Rightarrow> plugin list" where
  "matching_plugins ag query = filter (\<lambda>p. plugin_matches p query) (agent_plugins ag)"

text \<open>Every exception that a plugin of the list raises on the context is an \<open>Exception\<close>.\<close>

definition raise_only_Exception :: "plugin list \<Rightarrow> exec_context \<Rightarrow> bool" where
  "raise_only_Exception ps context =
     list_all (\<lambda>p. case plugin_execute p context of Inl e \<Rightarrow> is_Exception e | Inr r \<Rightarrow> True) ps"

text \<open>
  The findings that the recorder adds for one plugin result: one for each payload before
  the first rejected one.
\<close>

definition recorded_findings ::
  "clock \<Rightarrow> string \<Rightarrow> string option \<Rightarrow> plugin_result \<Rightarrow> finding list" where
  "recorded_findings clk name target r =
     (case pr_findings r of
        None \<Rightarrow> []
      | Some payloads \<Rightarrow>
          map (build_finding clk name target) (takeWhile (payload_accepted target) payloads))"

text \<open>The exception, if any, that recording a plugin result raises.\<close>

definition recording_error :: "string option \<Rightarrow> plugin_result \<Rightarrow> exn option" where
  "recording_error target r =
     (case pr_findings r of
        None \<Rightarrow> None
      | Some payloads \<Rightarrow>
          if list_all (payload_accepted target) payloads then None else Some validation_error)"

text \<open>The findings that one plugin contributes to the session.\<close>

definition plugin_findings ::
  "agent \<Rightarrow> string option \<Rightarrow> exec_context \<Rightarrow> plugin \<Rightarrow> finding list" where
  "plugin_findings ag target context p =
     (case plugin_execute p context of
        Inl e \<Rightarrow> []
      | Inr r \<Rightarrow> recorded_findings (agent_clock ag) (plugin_name p) target r)"

text \<open>
  The entries that one plugin leaves in the result list: the failure when \<open>execute\<close>
  raises, otherwise its result, followed by a failure when recording the result raises.
\<close>

definition plugin_entries :: "string option \<Rightarrow> exec_context \<Rightarrow> plugin \<Rightarrow> plugin_result list" where
  "plugin_entries target context p =
     (case plugin_execute p context of
        Inl e \<Rightarrow> [failure_result (plugin_name p) e]
      | Inr r \<Rightarrow>
          (case recording_error target r of
             None \<Rightarrow> [r]
           | Some e \<Rightarrow> [r, failure_result (plugin_name p) e]))"

section \<open>Collaborators for the examples\<close>

text \<open>
  Concrete collaborators, used where a statement is evaluated at an explicit input.

  \<open>ipv4_module\<close> stands in for the \<open>ipaddress\<close> module on IPv4 text: a dotted quad of
  decimal octets (no leading zeros, at most 255), for a network followed by at most
  one \<open>/\<close> and a decimal prefix length of at most 32. On any other string it raises
  \<open>ValueError\<close>.
\<close>

text \<open>\<open>s.split(sep)\<close> for a one-character separator.\<close>

fun split_on :: "char \<Rightarrow> string \<Rightarrow> string list" where
  "split_on sep [] = [[]]"
| "split_on sep (c # cs) =
     (if c = sep then [] # split_on sep cs
      else (case split_on sep cs of [] \<Rightarrow> [[c]] | x # xs \<Rightarrow> (c # x) # xs))"

text \<open>\<open>int(s)\<close> for a string of decimal digits.\<close>

definition parse_nat :: "string \<Rightarrow> nat" where
  "parse_nat s = foldl (\<lambda>n c. 10 * n + (of_char c - 48)) 0 s"

definition parse_octet :: "string \<Rightarrow> nat option" where
  "parse_octet octet_str =
     (if octet_str = [] then None
      else if \<not> list_all is_digit octet_str then None
      else if length octet_str > 3 then None
      else if octet_str \<noteq> ''0'' \<and> take 1 octet_str = ''0'' then None
      else if parse_nat octet_str > 255 then None
      else Some (parse_nat octet_str))"

definition ip_int_from_string :: "string \<Rightarrow> 32 word option" where
  "ip_int_from_string ip_str =
     (if ip_str = [] then None
      else (case map parse_octet (split_on (CHR ''.'') ip_str) of
              [Some a, Some b, Some c, Some d] \<Rightarrow>
                Some (word_of_nat (((a * 256 + b) * 256 + c) * 256 + d))
            | octets \<Rightarrow> None))"

definition prefix_from_prefix_string :: "string \<Rightarrow> nat option" where
  "prefix_from_prefix_string prefixlen_str =
     (if prefixlen_str = [] \<or> \<not> list_all is_digit prefixlen_str then None
      else if parse_nat prefixlen_str > 32 then None
      else Some (parse_nat prefixlen_str))"

definition ipv4_address :: "string \<Rightarrow> exn + ip_address" where
  "ipv4_address s =
     (if CHR ''/'' \<in> set s then Inl (ValueError ''does not appear to be an IPv4 or IPv6 address'')
      else (case ip_int_from_string s of
              None \<Rightarrow> Inl (ValueError ''does not appear to be an IPv4 or IPv6 address'')
            | Some w \<Rightarrow> Inr (IPv4Address w)))"

definition ipv4_network :: "string \<Rightarrow> exn + ip_network" where
  "ipv4_network s =
     (case split_on (CHR ''/'') s of
        [addr_str] \<Rightarrow>
          (case ip_int_from_string addr_str of
             Some w \<Rightarrow> Inr (IPv4Network w 32)
           | None \<Rightarrow> Inl (ValueError ''does not appear to be an IPv4 or IPv6 network''))
      | [addr_str, mask_str] \<Rightarrow>
          (case (ip_int_from_string addr_str, prefix_from_prefix_string mask_str) of
             (Some w, Some prefixlen) \<Rightarrow> Inr (IPv4Network w prefixlen)
           | other \<Rightarrow> Inl (ValueError ''does not appear to be an IPv4 or IPv6 network''))
      | parts \<Rightarrow> Inl (ValueError ''does not appear to be an IPv4 or IPv6 network''))"

definition ipv4_module :: ipaddress_module where
  "ipv4_module = \<lparr>ip_network = ipv4_network, ip_address = ipv4_address\<rparr>"

text \<open>A module whose parsers raise \<open>TypeError\<close> on every string.\<close>

definition raising_module :: ipaddress_module where
  "raising_module =
     \<lparr>ip_network = (\<lambda>s. Inl (TypeError [])), ip_address = (\<lambda>s. Inl (TypeError []))\<rparr>"

definition example_clock :: clock where
  "example_clock =
     \<lparr>now_isoformat = ''2024-01-01T00:00:00'',
      now_timestamp = ''1704067200.0'',
      now_strftime = ''20240101_000000''\<rparr>"

text \<open>A scan wrapper whose scans all report one open port, 80.\<close>

definition example_scan :: "string \<Rightarrow> exn + scan_result" where
  "example_scan tgt =
     Inr \<lparr>sr_success = Some True,
          sr_open_ports = Some [\<lparr>pi_port = Some ''80'', pi_service = Some ''HTTP'',
                                 pi_version = None\<rparr>],
          sr_text = ''scan result''\<rparr>"

definition example_nmap :: nmap_wrapper where
  "example_nmap =
     \<lparr>quick_scan = example_scan, full_scan = example_scan, scan_http_services = example_scan\<rparr>"

text \<open>A plugin that matches every query and whose \<open>execute\<close> raises.\<close>

definition raising_plugin :: plugin where
  "raising_plugin =
     \<lparr>plugin_name = ''broken'', plugin_matches = (\<lambda>q. True),
      plugin_execute = (\<lambda>context. Inl (Exception ''connection refused''))\<rparr>"

definition example_llm :: "string \<Rightarrow> llm_context option \<Rightarrow> exn + string" where
  "example_llm prompt llm_context = Inr ''I will scan the target for open ports.''"

definition example_str :: "plugin_result \<Rightarrow> string" where
  "example_str r = ''plugin result''"

text \<open>The scope of the repository's scope-enforcement tests.\<close>

definition strict_config :: orchestrator_config where
  "strict_config =
     \<lparr>scope = \<lparr>allowed_ips = [''192.168.1.0/24'', ''10.0.0.0/8''],
                allowed_domains = [''example.com''], strict_mode = True\<rparr>,
      safety = default_safety\<rparr>"

text \<open>
  An agent with the default configuration: strict mode, empty allow-lists, confirmation
  required.
\<close>

definition default_agent :: agent where
  "default_agent =
     \<lparr>agent_config = default_config,
      agent_plugins = [nmap_plugin example_nmap],
      agent_llm = example_llm,
      agent_ipaddress = ipv4_module,
      agent_clock = example_clock,
      agent_str = example_str\<rparr>"

definition scoped_config :: orchestrator_config where
  "scoped_config =
     \<lparr>scope = \<lparr>allowed_ips = [''192.168.1.0/24''], allowed_domains = [],
                strict_mode = True\<rparr>,
      safety = default_safety\<rparr>"

text \<open>
  A result as the web-vulnerability plugin builds it for the target \<open>192.168.1.10\<close>: its
  one payload names the URL it scanned as its target. A second payload names neither a
  target nor a severity.
\<close>

definition web_payload :: finding_data where
  "web_payload =
     \<lparr>fd_type = Present ''web_vulnerability'',
      fd_target = Present ''http://192.168.1.10'',
      fd_severity = Present ''medium'',
      fd_description = Present ''Server leaks version information'',
      fd_evidence = Present [],
      fd_recommendations = Absent\<rparr>"

definition web_result :: plugin_result where
  "web_result =
     \<lparr>pr_success = Some True, pr_plugin = Some ''web_vuln'', pr_error = None,
      pr_findings = Some [web_payload], pr_raw_result = Some ''web scan result'',
      pr_suggested_exploits = None\<rparr>"

definition bare_payload :: finding_data where
  "bare_payload =
     \<lparr>fd_type = Present ''note'', fd_target = Absent, fd_severity = Absent,
      fd_description = Absent, fd_evidence = Absent, fd_recommendations = Absent\<rparr>"

definition bare_result :: plugin_result where
  "bare_result =
     \<lparr>pr_success = Some True, pr_plugin = Some ''notes'', pr_error = None,
      pr_findings = Some [bare_payload], pr_raw_result = None,
      pr_suggested_exploits = None\<rparr>"

text \<open>
  A result whose second payload carries a severity that \<open>Finding\<close> rejects, and a plugin
  that matches every query and returns it.
\<close>

definition rejected_payload :: finding_data where
  "rejected_payload =
     \<lparr>fd_type = Present ''web_vulnerability'', fd_target = Absent, fd_severity = Rejected,
      fd_description = Absent, fd_evidence = Absent, fd_recommendations = Absent\<rparr>"

definition mixed_result :: plugin_result where
  "mixed_result =
     \<lparr>pr_success = Some True, pr_plugin = Some ''web_vuln'', pr_error = None,
      pr_findings = Some [web_payload, rejected_payload, bare_payload],
      pr_raw_result = Some ''web scan result'', pr_suggested_exploits = None\<rparr>"

definition mixed_plugin :: plugin where
  "mixed_plugin =
     \<lparr>plugin_name = ''web_vuln'', plugin_matches = (\<lambda>q. True),
      plugin_execute = (\<lambda>context. Inr mixed_result)\<rparr>"

text \<open>
  An agent with the scope of the repository's integration test and three plugins: one
  whose \<open>execute\<close> raises, one with a rejected payload, and the scanner.
\<close>

definition scoped_agent :: agent where
  "scoped_agent =
     \<lparr>agent_config = scoped_config,
      agent_plugins = [raising_plugin, mixed_plugin, nmap_plugin example_nmap],
      agent_llm = example_llm,
      agent_ipaddress = ipv4_module,
      agent_clock = example_clock,
      agent_str = example_str\<rparr>"

text \<open>
  An allow-list with an IPv6 entry before an IPv4 entry, and a stand-in for the
  \<open>ipaddress\<close> module that knows this one IPv6 network besides IPv4 text.
\<close>

definition mixed_scope_config :: orchestrator_config where
  "mixed_scope_config =
     \<lparr>scope = \<lparr>allowed_ips = [''fd00::/8'', ''10.0.0.0/8''], allowed_domains = [],
                strict_mode = True\<rparr>,
      safety = default_safety\<rparr>"

definition dual_network :: "string \<Rightarrow> exn + ip_network" where
  "dual_network s =
     (if s = ''fd00::/8'' then Inr (IPv6Network (push_bit 112 0xfd00) 8) else ipv4_network s)"

definition dual_module :: ipaddress_module where
  "dual_module = \<lparr>ip_network = dual_network, ip_address = ipv4_address\<rparr>"

definition mixed_scope_agent :: agent where
  "mixed_scope_agent =
     \<lparr>agent_config = mixed_scope_config,
      agent_plugins = [nmap_plugin example_nmap],
      agent_llm = example_llm,
      agent_ipaddress = dual_module,
      agent_clock = example_clock,
      agent_str = example_str\<rparr>"

section \<open>Facts about the string operations\<close>

lemma str_contains_iff_sublist: "str_contains needle hay \<longleftrightarrow> sublist needle hay"
  by (induction hay) (auto simp: sublist_Cons_right)

lemma endswith_iff_suffix: "endswith s suf \<longleftrightarrow> suffix suf s"
proof
  assume "endswith s suf"
  then have "s = take (length s - length suf) s @ suf"
    by (metis append_take_drop_id endswith_def)
  then show "suffix suf s"
    by (metis suffixI)
next
  assume "suffix suf s"
  then obtain pre where "s = pre @ suf"
    by (auto simp: suffix_def)
  then show "endswith s suf"
    by (simp add: endswith_def)
qed

lemma keyword_loop_iff:
  "keyword_loop kws q \<longleftrightarrow> (\<exists>k \<in> set kws. str_contains k q)"
  by (induction kws) auto

lemma check_domain_rules_iff:
  "check_domain_rules target ds \<longleftrightarrow> (\<exists>d \<in> set ds. domain_rule target d)"
  by (induction ds) auto

section \<open>Facts about networks and addresses\<close>

text \<open>
  The masks in closed form, the integers of \<open>network_address\<close> and \<open>broadcast_address\<close>,
  and membership as a range: an address is in a network exactly when it lies between
  the network address and the broadcast address.
\<close>

lemma drop_bit_minus_one: "drop_bit p (- 1 :: 'a::len word) = mask (LENGTH('a) - p)"
  by (rule bit_word_eqI) (auto simp: bit_simps)

lemma netmask_eq: "(netmask p :: 'a::len word) = NOT (mask (LENGTH('a) - p))"
  by (simp add: netmask_def drop_bit_minus_one)

lemma hostmask_eq: "(hostmask p :: 'a::len word) = mask (LENGTH('a) - p)"
  by (simp add: hostmask_def netmask_eq)

lemma and_not_mask_eq: "(w AND NOT (mask h) :: 'a::len word) = push_bit h (drop_bit h w)"
  by (rule bit_word_eqI) (auto simp: bit_simps)

lemma unat_and_not_mask: "unat (w AND NOT (mask h) :: 'a::len word) = (unat w div 2 ^ h) * 2 ^ h"
proof -
  have le: "(unat w div 2 ^ h) * 2 ^ h \<le> unat w"
    by (metis div_mult_mod_eq le_add1)
  have "unat w < 2 ^ LENGTH('a)"
    by simp
  with le have lt: "(unat w div 2 ^ h) * 2 ^ h < 2 ^ LENGTH('a)"
    by (rule le_less_trans)
  have "unat (push_bit h (drop_bit h w)) = take_bit LENGTH('a) (push_bit h (drop_bit h (unat w)))"
    by (simp add: unsigned_push_bit_eq unat_drop_bit_eq)
  also have "\<dots> = (unat w div 2 ^ h) * 2 ^ h"
    using lt by (simp add: push_bit_eq_mult drop_bit_eq_div take_bit_nat_eq_self)
  finally show ?thesis
    by (simp add: and_not_mask_eq)
qed

lemma unat_network_address:
  "unat (network_address a p :: 'a::len word) =
     (unat a div 2 ^ (LENGTH('a) - p)) * 2 ^ (LENGTH('a) - p)"
  by (simp add: network_address_def netmask_eq unat_and_not_mask)

lemma contains_iff_div:
  "(ip AND netmask p = network_address a p) \<longleftrightarrow>
     unat ip div 2 ^ (LENGTH('a) - p) = unat (a :: 'a::len word) div 2 ^ (LENGTH('a) - p)"
proof -
  have "(ip AND netmask p = network_address a p) \<longleftrightarrow>
          unat (network_address ip p) = unat (network_address a p)"
    by (simp add: network_address_def unsigned_word_eqI [symmetric] word_unat_eq_iff)
  then show ?thesis
    by (simp add: unat_network_address)
qed

lemma div_eq_iff_range:
  fixes x y k :: nat
  assumes "0 < k"
  shows "x div k = y div k \<longleftrightarrow> (y div k) * k \<le> x \<and> x < (y div k) * k + k"
proof
  assume eq: "x div k = y div k"
  have "x = (x div k) * k + x mod k"
    by simp
  moreover have "x mod k < k"
    using assms by simp
  ultimately show "(y div k) * k \<le> x \<and> x < (y div k) * k + k"
    using eq by (metis add_less_cancel_left le_add1)
next
  assume "(y div k) * k \<le> x \<and> x < (y div k) * k + k"
  then have "k * (y div k) \<le> x" and "x < k * Suc (y div k)"
    by (auto simp: mult.commute)
  then show "x div k = y div k"
    by (rule div_nat_eqI)
qed

lemma network_upper:
  fixes a :: "'a::len word"
  assumes "h \<le> LENGTH('a)"
  shows "(unat a div 2 ^ h) * 2 ^ h + 2 ^ h \<le> 2 ^ LENGTH('a)"
proof -
  have "unat a < 2 ^ (LENGTH('a) - h) * 2 ^ h"
    using assms by (simp add: power_add [symmetric])
  then have "unat a div 2 ^ h < 2 ^ (LENGTH('a) - h)"
    by (simp add: less_mult_imp_div_less)
  then have "Suc (unat a div 2 ^ h) * 2 ^ h \<le> 2 ^ (LENGTH('a) - h) * 2 ^ h"
    by (intro mult_le_mono1) simp
  then show ?thesis
    using assms by (simp add: power_add [symmetric] add.commute)
qed

lemma Suc_unat_mask:
  assumes "h \<le> LENGTH('a)"
  shows "Suc (unat (mask h :: 'a::len word)) = 2 ^ h"
proof -
  have "unat (mask h :: 'a word) = mask h"
    using assms by (simp add: nat_mask_eq uint_mask_eq unat_eq_nat_uint)
  then show ?thesis
    by (simp add: Suc_mask_eq_exp)
qed

lemma Suc_unat_broadcast_address:
  "Suc (unat (broadcast_address a p :: 'a::len word)) =
     (unat a div 2 ^ (LENGTH('a) - p)) * 2 ^ (LENGTH('a) - p) + 2 ^ (LENGTH('a) - p)"
proof -
  let ?h = "LENGTH('a) - p"
  have disj: "network_address a p AND (mask ?h :: 'a word) = 0"
    by (rule bit_word_eqI) (auto simp: network_address_def netmask_eq bit_simps)
  have um: "Suc (unat (mask ?h :: 'a word)) = 2 ^ ?h"
    by (rule Suc_unat_mask) simp
  have up: "(unat a div 2 ^ ?h) * 2 ^ ?h + 2 ^ ?h \<le> 2 ^ LENGTH('a)"
    by (rule network_upper) simp
  have small: "unat (network_address a p) + unat (mask ?h :: 'a word) < 2 ^ LENGTH('a)"
    using up um by (simp add: unat_network_address)
  have "broadcast_address a p = network_address a p + mask ?h"
    using disj by (simp add: broadcast_address_def hostmask_eq disjunctive_add_eq_or)
  then have "unat (broadcast_address a p) = unat (network_address a p) + unat (mask ?h :: 'a word)"
    using small by (simp add: unat_add_lem)
  then show ?thesis
    using um by (simp add: unat_network_address)
qed

lemma contains_iff_range:
  fixes a ip :: "'a::len word"
  shows "(ip AND netmask p = network_address a p) \<longleftrightarrow>
           network_address a p \<le> ip \<and> ip \<le> broadcast_address a p"
proof -
  have "0 < (2::nat) ^ (LENGTH('a) - p)"
    by simp
  from div_eq_iff_range [OF this, of "unat ip" "unat a"] show ?thesis
    by (simp add: contains_iff_div word_le_nat_alt unat_network_address
        less_Suc_eq_le [symmetric] Suc_unat_broadcast_address)
qed

lemma network_le_broadcast:
  "network_address a p \<le> (broadcast_address a p :: 'a::len word)"
  by (simp add: word_le_nat_alt unat_network_address less_Suc_eq_le [symmetric]
      Suc_unat_broadcast_address)

lemma unat_broadcast_address:
  "unat (broadcast_address a p :: 'a::len word) =
     (unat a div 2 ^ (LENGTH('a) - p)) * 2 ^ (LENGTH('a) - p) + 2 ^ (LENGTH('a) - p) - 1"
  using Suc_unat_broadcast_address [of a p] by simp

lemma hosts_IPv4:
  "hosts (IPv4Network a p) = IPv4Address ` {network_address a p .. broadcast_address a p}"
proof -
  have "net_contains (IPv4Network a p) x \<longleftrightarrow>
          x \<in> IPv4Address ` {network_address a p .. broadcast_address a p}" for x
    by (cases x) (auto simp: contains_iff_range)
  then show ?thesis
    by (auto simp: hosts_def)
qed

lemma hosts_IPv6:
  "hosts (IPv6Network a p) = IPv6Address ` {network_address a p .. broadcast_address a p}"
proof -
  have "net_contains (IPv6Network a p) x \<longleftrightarrow>
          x \<in> IPv6Address ` {network_address a p .. broadcast_address a p}" for x
    by (cases x) (auto simp: contains_iff_range)
  then show ?thesis
    by (auto simp: hosts_def)
qed

lemma subnet_of_iff_hosts: "subnet_of t n = Inr True \<longleftrightarrow> hosts t \<subseteq> hosts n"
proof (cases t; cases n)
  fix a p b q
  assume "t = IPv4Network a p" and "n = IPv4Network b q"
  then show ?thesis
    using network_le_broadcast [of a p]
    by (simp add: hosts_IPv4 inj_image_subset_iff inj_on_def)
next
  fix a p b q
  assume "t = IPv6Network a p" and "n = IPv6Network b q"
  then show ?thesis
    using network_le_broadcast [of a p]
    by (simp add: hosts_IPv6 inj_image_subset_iff inj_on_def)
next
  fix a p b q
  assume tn: "t = IPv4Network a p" "n = IPv6Network b q"
  have "IPv4Address (network_address a p) \<in> hosts t"
    using tn network_le_broadcast [of a p] by (simp add: hosts_IPv4)
  moreover have "IPv4Address (network_address a p) \<notin> hosts n"
    using tn by (auto simp: hosts_IPv6)
  ultimately show ?thesis
    using tn by auto
next
  fix a p b q
  assume tn: "t = IPv6Network a p" "n = IPv4Network b q"
  have "IPv6Address (network_address a p) \<in> hosts t"
    using tn network_le_broadcast [of a p] by (simp add: hosts_IPv6)
  moreover have "IPv6Address (network_address a p) \<notin> hosts n"
    using tn by (auto simp: hosts_IPv4)
  ultimately show ?thesis
    using tn by auto
qed

lemma subnet_of_cases:
  "subnet_of t n = Inr (hosts t \<subseteq> hosts n) \<or> (\<exists>m. subnet_of t n = Inl (TypeError m))"
  using subnet_of_iff_hosts [of t n]
  by (cases t; cases n) auto

section \<open>The safety gate: letter case of configured keywords\<close>

lemma is_dangerous_action_iff:
  "is_dangerous_action config query \<longleftrightarrow>
     (\<exists>keyword \<in> set (dangerous_actions (safety config)). sublist keyword (lower query))"
  by (simp add: is_dangerous_action_def keyword_loop_iff str_contains_iff_sublist)

lemma is_dangerous_spec_iff:
  "is_dangerous_spec kws text \<longleftrightarrow> (\<exists>k \<in> set kws. sublist (lower k) (lower text))"
  by (simp add: is_dangerous_spec_def list_ex_iff str_contains_iff_sublist)

lemma is_dangerous_action_lower_keywords:
  assumes "\<forall>k \<in> set (dangerous_actions (safety config)). lower k = k"
  shows "is_dangerous_action config query =
           is_dangerous_spec (dangerous_actions (safety config)) query"
  using assms by (auto simp: is_dangerous_action_iff is_dangerous_spec_iff)

text \<open>
  Claim C3. The dangerous-action check should return true exactly when some configured
  keyword occurs in the query under case-insensitive comparison, whatever the letter
  case of the query or of the configured keyword. The code lower-cases the query only:
  with the keyword configured as \<open>Exploit\<close> the query \<open>run exploit now\<close> is not flagged,
  although it contains the keyword case-insensitively.
\<close>

theorem is_dangerous_action_keyword_case:
  "is_dangerous_action
     (default_config\<lparr>safety := default_safety\<lparr>dangerous_actions := [''Exploit'']\<rparr>\<rparr>)
     ''run exploit now'' = False
   \<and> is_dangerous_spec [''Exploit''] ''run exploit now'' = True"
  by code_simp

section \<open>Scope enforcement: non-strict mode\<close>

text \<open>
  Claim C6. With strict mode disabled the scope check returns true for every target
  string, malformed ones included, and consults no allow-list entry: the result is the
  same for every pair of parsers, also for parsers that raise on every string.
\<close>

theorem check_scope_non_strict:
  "\<not> strict_mode (scope config) \<Longrightarrow> check_scope lib config target = Inr True"
  by (simp add: check_scope_def)

theorem check_scope_non_strict_witness:
  "\<not> strict_mode (scope (default_config\<lparr>scope :=
        \<lparr>allowed_ips = [''10.0.0.0/8''], allowed_domains = [], strict_mode = False\<rparr>\<rparr>))
   \<and> check_scope
        raising_module
        (default_config\<lparr>scope :=
           \<lparr>allowed_ips = [''10.0.0.0/8''], allowed_domains = [], strict_mode = False\<rparr>\<rparr>)
        ''999.1/x not an address'' = Inr True"
  using check_scope_non_strict
    [of "default_config\<lparr>scope :=
           \<lparr>allowed_ips = [''10.0.0.0/8''], allowed_domains = [], strict_mode = False\<rparr>\<rparr>"
        "raising_module"
        "''999.1/x not an address''"]
  by simp

section \<open>Scope enforcement: the domain rule\<close>

lemma domain_rule_iff:
  "domain_rule T D \<longleftrightarrow> (T = D \<or> (\<exists>pre. T = pre @ ''.'' @ D))"
  by (auto simp: domain_rule_def endswith_iff_suffix suffix_def)

text \<open>
  Claim C7. In strict mode the domain rule for an allowed-domain entry \<open>D\<close> accepts a
  target \<open>T\<close> exactly when \<open>T\<close> equals \<open>D\<close> or \<open>T\<close> ends with a dot followed by \<open>D\<close>. When no
  allowed-IP entry has accepted the target, the scope check is the disjunction of the
  domain rules. The rule \<open>example.com\<close> accepts \<open>api.example.com\<close> and rejects
  \<open>notexample.com\<close>.
\<close>

theorem domain_rule_suffix_exact:
  "(domain_rule T D \<longleftrightarrow> (T = D \<or> (\<exists>pre. T = pre @ ''.'' @ D)))
   \<and> (strict_mode (scope config)
        \<and> check_ip_rules lib T (allowed_ips (scope config)) = Inr False
      \<longrightarrow> check_scope lib config T =
            Inr (\<exists>D \<in> set (allowed_domains (scope config)).
                   T = D \<or> (\<exists>pre. T = pre @ ''.'' @ D)))
   \<and> domain_rule ''api.example.com'' ''example.com''
   \<and> \<not> domain_rule ''notexample.com'' ''example.com''"
proof -
  have rule: "domain_rule T D \<longleftrightarrow> (T = D \<or> (\<exists>pre. T = pre @ ''.'' @ D))" for T D
    by (rule domain_rule_iff)
  have examples: "domain_rule ''api.example.com'' ''example.com''"
    "\<not> domain_rule ''notexample.com'' ''example.com''"
    by (simp_all add: domain_rule_def endswith_def)
  have whole: "check_scope lib config T =
      Inr (\<exists>D \<in> set (allowed_domains (scope config)). T = D \<or> (\<exists>pre. T = pre @ ''.'' @ D))"
    if "strict_mode (scope config)"
      and "check_ip_rules lib T (allowed_ips (scope config)) = Inr False"
    using that by (simp add: check_scope_def check_domain_rules_iff rule)
  from rule examples whole show ?thesis
    by blast
qed

theorem domain_rule_suffix_exact_witness:
  "strict_mode (scope (default_config\<lparr>scope :=
        \<lparr>allowed_ips = [], allowed_domains = [''example.com''], strict_mode = True\<rparr>\<rparr>))
   \<and> check_ip_rules ipv4_module
        ''api.example.com''
        (allowed_ips (scope (default_config\<lparr>scope :=
           \<lparr>allowed_ips = [], allowed_domains = [''example.com''], strict_mode = True\<rparr>\<rparr>)))
       = Inr False
   \<and> check_scope ipv4_module
        (default_config\<lparr>scope :=
           \<lparr>allowed_ips = [], allowed_domains = [''example.com''], strict_mode = True\<rparr>\<rparr>)
        ''api.example.com'' = Inr True"
  using domain_rule_suffix_exact
    [of "''api.example.com''" "''example.com''"
        "default_config\<lparr>scope :=
           \<lparr>allowed_ips = [], allowed_domains = [''example.com''], strict_mode = True\<rparr>\<rparr>"
        "ipv4_module"]
  by simp

section \<open>Scope enforcement: CIDR entries\<close>

lemma rule_subnet:
  assumes "CHR ''/'' \<in> set R" and "CHR ''/'' \<in> set T"
  shows "ip_rule_body lib T R = Inr True \<longleftrightarrow>
           (\<exists>n t. ip_network lib R = Inr n \<and> ip_network lib T = Inr t \<and> hosts t \<subseteq> hosts n)"
  using assms
  by (auto simp: ip_rule_body_def subnet_of_iff_hosts split: sum.splits)

lemma rule_member:
  assumes "CHR ''/'' \<in> set R" and "CHR ''/'' \<notin> set T"
  shows "ip_rule_body lib T R = Inr True \<longleftrightarrow>
           (\<exists>n a. ip_network lib R = Inr n \<and> ip_address lib T = Inr a \<and> a \<in> hosts n)"
  using assms
  by (auto simp: ip_rule_body_def hosts_def split: sum.splits)

lemma rule_parse_failure:
  assumes "CHR ''/'' \<in> set R" and "parse_failure lib T R"
  shows "skipped (ip_rule_body lib T R)"
  using assms
  by (auto simp: ip_rule_body_def parse_failure_def is_ValueError_def skipped_def
      split: sum.splits exn.splits if_splits)

lemma subnet_of_raises_iff:
  "subnet_of t n = Inl e \<longleftrightarrow> version t \<noteq> version n \<and> e = TypeError ''not of the same version''"
  by (cases t; cases n) auto

lemma rule_version_mismatch:
  assumes "CHR ''/'' \<in> set R" and "CHR ''/'' \<in> set T"
    and "ip_network lib R = Inr n" and "ip_network lib T = Inr t"
    and "version t \<noteq> version n"
  shows "ip_rule_body lib T R = Inl (TypeError ''not of the same version'')"
  using assms by (simp add: ip_rule_body_def subnet_of_raises_iff)

text \<open>The loop over \<open>allowed_ips\<close>, one entry at a time.\<close>

lemma check_ip_rules_Cons:
  "check_ip_rules lib T (R # rest) =
     (if ip_rule_body lib T R = Inr True then Inr True
      else if skipped (ip_rule_body lib T R) then check_ip_rules lib T rest
      else ip_rule_body lib T R)"
  by (auto simp: skipped_def split: sum.splits exn.splits bool.splits)

lemma skipped_not_accepting: "skipped r \<Longrightarrow> r \<noteq> Inr True"
  by (auto simp: skipped_def)

lemma skipped_not_raising: "skipped (Inl e) \<longleftrightarrow> (\<exists>m. e = ValueError m)"
  by (auto simp: skipped_def split: exn.splits)

text \<open>
  The loop accepts exactly when some entry accepts and every entry before it was
  skipped; it falls through to the domain rules exactly when every entry was skipped;
  it raises exactly when, after skipped entries, an entry raises something other than
  \<open>ValueError\<close>.
\<close>

lemma check_ip_rules_accepts_iff:
  "check_ip_rules lib T rs = Inr True \<longleftrightarrow>
     (\<exists>before R after. rs = before @ R # after
        \<and> list_all (\<lambda>x. skipped (ip_rule_body lib T x)) before
        \<and> ip_rule_body lib T R = Inr True)"
proof (induction rs)
  case Nil
  show ?case by simp
next
  case (Cons R0 rest)
  show ?case
  proof (cases "ip_rule_body lib T R0 = Inr True")
    case True
    then have "R0 # rest = [] @ R0 # rest
        \<and> list_all (\<lambda>x. skipped (ip_rule_body lib T x)) []
        \<and> ip_rule_body lib T R0 = Inr True"
      by simp
    then have "\<exists>before R after. R0 # rest = before @ R # after
        \<and> list_all (\<lambda>x. skipped (ip_rule_body lib T x)) before
        \<and> ip_rule_body lib T R = Inr True"
      by blast
    with True show ?thesis
      by (simp add: check_ip_rules_Cons del: check_ip_rules.simps)
  next
    case False
    show ?thesis
    proof (cases "skipped (ip_rule_body lib T R0)")
      case True
      have "(\<exists>before R after. R0 # rest = before @ R # after
              \<and> list_all (\<lambda>x. skipped (ip_rule_body lib T x)) before
              \<and> ip_rule_body lib T R = Inr True)
            \<longleftrightarrow> (\<exists>before R after. rest = before @ R # after
              \<and> list_all (\<lambda>x. skipped (ip_rule_body lib T x)) before
              \<and> ip_rule_body lib T R = Inr True)"
        (is "?L \<longleftrightarrow> ?R")
      proof
        assume ?L
        then obtain before R after where
          eq: "R0 # rest = before @ R # after"
          and sk: "list_all (\<lambda>x. skipped (ip_rule_body lib T x)) before"
          and acc: "ip_rule_body lib T R = Inr True"
          by blast
        from eq acc False obtain bs where "before = R0 # bs" "rest = bs @ R # after"
          by (cases before) auto
        with sk acc show ?R
          by auto
      next
        assume ?R
        then obtain before R after where
          "rest = before @ R # after"
          "list_all (\<lambda>x. skipped (ip_rule_body lib T x)) before"
          "ip_rule_body lib T R = Inr True"
          by blast
        with True have "R0 # rest = (R0 # before) @ R # after
            \<and> list_all (\<lambda>x. skipped (ip_rule_body lib T x)) (R0 # before)
            \<and> ip_rule_body lib T R = Inr True"
          by simp
        then show ?L
          by blast
      qed
      with Cons.IH True False show ?thesis
        by (simp add: check_ip_rules_Cons del: check_ip_rules.simps)
    next
      case raised: False
      have "\<not> (\<exists>before R after. R0 # rest = before @ R # after
              \<and> list_all (\<lambda>x. skipped (ip_rule_body lib T x)) before
              \<and> ip_rule_body lib T R = Inr True)"
      proof
        assume "\<exists>before R after. R0 # rest = before @ R # after
              \<and> list_all (\<lambda>x. skipped (ip_rule_body lib T x)) before
              \<and> ip_rule_body lib T R = Inr True"
        then obtain before R after where
          eq: "R0 # rest = before @ R # after"
          and sk: "list_all (\<lambda>x. skipped (ip_rule_body lib T x)) before"
          and acc: "ip_rule_body lib T R = Inr True"
          by blast
        from eq sk acc False raised show False
          by (cases before) auto
      qed
      with False raised show ?thesis
        by (simp add: check_ip_rules_Cons del: check_ip_rules.simps)
    qed
  qed
qed

lemma check_ip_rules_rejects_iff:
  "check_ip_rules lib T rs = Inr False \<longleftrightarrow>
     list_all (\<lambda>x. skipped (ip_rule_body lib T x)) rs"
proof (induction rs)
  case Nil
  show ?case by simp
next
  case (Cons R0 rest)
  show ?case
  proof (cases "ip_rule_body lib T R0")
    case (Inl e)
    with Cons.IH show ?thesis
      by (cases e) (simp_all add: skipped_def)
  next
    case (Inr b)
    with Cons.IH show ?thesis
      by (cases b) (simp_all add: skipped_def)
  qed
qed

lemma check_ip_rules_raises_iff:
  "check_ip_rules lib T rs = Inl e \<longleftrightarrow>
     (\<exists>before R after. rs = before @ R # after
        \<and> list_all (\<lambda>x. skipped (ip_rule_body lib T x)) before
        \<and> ip_rule_body lib T R = Inl e \<and> \<not> skipped (Inl e :: exn + bool))"
proof (induction rs)
  case Nil
  show ?case by simp
next
  case (Cons R0 rest)
  let ?P = "\<lambda>rs. \<exists>before R after. rs = before @ R # after
        \<and> list_all (\<lambda>x. skipped (ip_rule_body lib T x)) before
        \<and> ip_rule_body lib T R = Inl e \<and> \<not> skipped (Inl e :: exn + bool)"
  show ?case
  proof (cases "skipped (ip_rule_body lib T R0)")
    case True
    then have nacc: "ip_rule_body lib T R0 \<noteq> Inr True"
      by (rule skipped_not_accepting)
    have "?P (R0 # rest) \<longleftrightarrow> ?P rest"
    proof
      assume "?P (R0 # rest)"
      then obtain before R after where
        eq: "R0 # rest = before @ R # after"
        and sk: "list_all (\<lambda>x. skipped (ip_rule_body lib T x)) before"
        and r: "ip_rule_body lib T R = Inl e" "\<not> skipped (Inl e :: exn + bool)"
        by blast
      from eq r True obtain bs where "before = R0 # bs" "rest = bs @ R # after"
        by (cases before) auto
      with sk r show "?P rest"
        by auto
    next
      assume "?P rest"
      then obtain before R after where
        "rest = before @ R # after"
        "list_all (\<lambda>x. skipped (ip_rule_body lib T x)) before"
        "ip_rule_body lib T R = Inl e" "\<not> skipped (Inl e :: exn + bool)"
        by blast
      with True have "R0 # rest = (R0 # before) @ R # after
          \<and> list_all (\<lambda>x. skipped (ip_rule_body lib T x)) (R0 # before)
          \<and> ip_rule_body lib T R = Inl e \<and> \<not> skipped (Inl e :: exn + bool)"
        by simp
      then show "?P (R0 # rest)"
        by blast
    qed
    with Cons.IH True nacc show ?thesis
      by (simp add: check_ip_rules_Cons del: check_ip_rules.simps)
  next
    case False
    show ?thesis
    proof (cases "ip_rule_body lib T R0 = Inr True")
      case True
      have "\<not> ?P (R0 # rest)"
      proof
        assume "?P (R0 # rest)"
        then obtain before R after where
          eq: "R0 # rest = before @ R # after"
          and sk: "list_all (\<lambda>x. skipped (ip_rule_body lib T x)) before"
          and r: "ip_rule_body lib T R = Inl e"
          by blast
        from eq sk r True False show False
          by (cases before) auto
      qed
      with True show ?thesis
        by (simp add: check_ip_rules_Cons del: check_ip_rules.simps)
    next
      case nacc: False
      have "?P (R0 # rest) \<longleftrightarrow> ip_rule_body lib T R0 = Inl e"
      proof
        assume "?P (R0 # rest)"
        then obtain before R after where
          eq: "R0 # rest = before @ R # after"
          and sk: "list_all (\<lambda>x. skipped (ip_rule_body lib T x)) before"
          and r: "ip_rule_body lib T R = Inl e"
          by blast
        from eq sk r False show "ip_rule_body lib T R0 = Inl e"
          by (cases before) auto
      next
        assume r: "ip_rule_body lib T R0 = Inl e"
        with False have "R0 # rest = [] @ R0 # rest
            \<and> list_all (\<lambda>x. skipped (ip_rule_body lib T x)) []
            \<and> ip_rule_body lib T R0 = Inl e \<and> \<not> skipped (Inl e :: exn + bool)"
          by simp
        then show "?P (R0 # rest)"
          by blast
      qed
      with False nacc show ?thesis
        by (simp add: check_ip_rules_Cons del: check_ip_rules.simps)
    qed
  qed
qed

text \<open>
  Where no entry raises anything but \<open>ValueError\<close>, every entry is tried: the loop
  accepts exactly when some entry accepts.
\<close>

lemma check_ip_rules_all_tried:
  assumes "\<And>R e. R \<in> set rs \<Longrightarrow> ip_rule_body lib T R = Inl e \<Longrightarrow> \<exists>m. e = ValueError m"
  shows "check_ip_rules lib T rs = Inr (\<exists>R \<in> set rs. ip_rule_body lib T R = Inr True)"
  using assms
proof (induction rs)
  case Nil
  show ?case by simp
next
  case (Cons R0 rest)
  have ih: "check_ip_rules lib T rest = Inr (\<exists>R \<in> set rest. ip_rule_body lib T R = Inr True)"
  proof (rule Cons.IH)
    fix R e
    assume "R \<in> set rest" and "ip_rule_body lib T R = Inl e"
    then show "\<exists>m. e = ValueError m"
      using Cons.prems [of R e] by simp
  qed
  show ?case
  proof (cases "ip_rule_body lib T R0")
    case (Inl e)
    with Cons.prems [of R0 e] obtain m where "e = ValueError m"
      by auto
    with Inl ih show ?thesis
      by simp
  next
    case (Inr b)
    with ih show ?thesis
      by (cases b) simp_all
  qed
qed

text \<open>
  An entry whose network is of another version than the target's ends the check: the
  entries after it are not tried.
\<close>

lemma version_mismatch_ends_check:
  assumes "CHR ''/'' \<in> set R" and "CHR ''/'' \<in> set T"
    and "ip_network lib R = Inr n" and "ip_network lib T = Inr t"
    and "version t \<noteq> version n"
  shows "check_ip_rules lib T (R # rest) = Inl (TypeError ''not of the same version'')"
  using rule_version_mismatch [OF assms] by simp

lemma ipv4_network_examples:
  "ip_network ipv4_module ''10.0.0.0/8'' = Inr (IPv4Network 167772160 8)"
  "ip_network ipv4_module ''10.1.2.0/24'' = Inr (IPv4Network 167838208 24)"
  "ip_network ipv4_module ''11.0.0.0/24'' = Inr (IPv4Network 184549376 24)"
  "ip_network ipv4_module ''192.168.1.0/24'' = Inr (IPv4Network 3232235776 24)"
  by (simp_all add: ipv4_module_def ipv4_network_def ip_int_from_string_def parse_octet_def
      parse_nat_def prefix_from_prefix_string_def is_digit_def)

lemma ipv4_address_examples:
  "ip_address ipv4_module ''192.168.1.10'' = Inr (IPv4Address 3232235786)"
  "ip_address ipv4_module ''10.0.0.5'' = Inr (IPv4Address 167772165)"
  "is_ValueError (ip_address ipv4_module ''subdomain.example.com'')"
  by (simp_all add: ipv4_module_def ipv4_address_def ip_int_from_string_def parse_octet_def
      parse_nat_def is_digit_def is_ValueError_def)

lemma dual_network_examples:
  "ip_network dual_module ''fd00::/8'' = Inr (IPv6Network (push_bit 112 0xfd00) 8)"
  "ip_network dual_module ''10.0.0.0/8'' = Inr (IPv4Network 167772160 8)"
  "ip_network dual_module ''10.1.2.0/24'' = Inr (IPv4Network 167838208 24)"
  using ipv4_network_examples(1,2)
  by (simp_all add: dual_module_def dual_network_def ipv4_module_def)

lemma hosts_subset_examples:
  "hosts (IPv4Network 167838208 24) \<subseteq> hosts (IPv4Network 167772160 8)"
  "\<not> hosts (IPv4Network 184549376 24) \<subseteq> hosts (IPv4Network 167772160 8)"
  by (simp_all add: subnet_of_iff_hosts [symmetric]
      word_le_nat_alt unat_network_address unat_broadcast_address)

lemma subnet_of_examples:
  "subnet_of (IPv4Network 167838208 24) (IPv4Network 167772160 8) = Inr True"
  by (simp only: subnet_of_iff_hosts hosts_subset_examples)

lemma hosts_member_examples:
  "IPv4Address 3232235786 \<in> hosts (IPv4Network 3232235776 24)"
  "IPv4Address 167772165 \<notin> hosts (IPv4Network 3232235776 24)"
  by (simp_all add: hosts_def contains_iff_div)

lemma extract_target_network_example:
  "extract_target ''scan 10.1.2.0/24'' = Some ''10.1.2.0/24''"
  by code_simp

text \<open>
  Claim C2. In strict mode, for an allowed-IP entry \<open>R\<close> in CIDR form, the scope check is
  to accept a target \<open>T\<close> that contains \<open>/\<close> exactly when the network of \<open>T\<close> is a subnet of
  the network of \<open>R\<close>, and an entry that cannot match is to be skipped, the remaining
  entries still being tried. The code departs from this where an entry of the other IP
  version comes first. With the allow-list \<open>fd00::/8\<close>, \<open>10.0.0.0/8\<close> and the target
  \<open>10.1.2.0/24\<close>: the target is a subnet of the second entry, which on its own accepts
  it; \<open>subnet_of\<close> raises \<open>TypeError\<close> at the first entry, which the handler
  \<open>except ValueError\<close> lets through; the second entry is never tried, the scope check
  raises, and so does \<open>process_query\<close>, whose scope check is outside its \<open>try\<close> block.
\<close>

theorem mixed_version_entry_raises:
  "strict_mode (scope mixed_scope_config)
   \<and> allowed_ips (scope mixed_scope_config) = [''fd00::/8'', ''10.0.0.0/8'']
   \<and> ip_network dual_module ''fd00::/8'' = Inr (IPv6Network (push_bit 112 0xfd00) 8)
   \<and> ip_network dual_module ''10.0.0.0/8'' = Inr (IPv4Network 167772160 8)
   \<and> ip_network dual_module ''10.1.2.0/24'' = Inr (IPv4Network 167838208 24)
   \<and> subnet_of (IPv4Network 167838208 24) (IPv4Network 167772160 8) = Inr True
   \<and> ip_rule_body dual_module ''10.1.2.0/24'' ''10.0.0.0/8'' = Inr True
   \<and> check_ip_rules dual_module ''10.1.2.0/24'' [''10.0.0.0/8''] = Inr True
   \<and> ip_rule_body dual_module ''10.1.2.0/24'' ''fd00::/8''
       = Inl (TypeError ''not of the same version'')
   \<and> check_scope dual_module mixed_scope_config ''10.1.2.0/24''
       = Inl (TypeError ''not of the same version'')
   \<and> fst (process_query mixed_scope_agent ''scan 10.1.2.0/24'' None None)
       = Inl (TypeError ''not of the same version'')"
proof -
  have cfg: "strict_mode (scope mixed_scope_config)"
    "allowed_ips (scope mixed_scope_config) = [''fd00::/8'', ''10.0.0.0/8'']"
    by (simp_all add: mixed_scope_config_def)
  have second: "ip_rule_body dual_module ''10.1.2.0/24'' ''10.0.0.0/8'' = Inr True"
    by (simp add: ip_rule_body_def dual_network_examples subnet_of_examples
        del: subnet_of.simps)
  then have alone: "check_ip_rules dual_module ''10.1.2.0/24'' [''10.0.0.0/8''] = Inr True"
    by simp
  have first: "ip_rule_body dual_module ''10.1.2.0/24'' ''fd00::/8''
                 = Inl (TypeError ''not of the same version'')"
    by (simp add: ip_rule_body_def dual_network_examples)
  then have scope: "check_scope dual_module mixed_scope_config ''10.1.2.0/24''
                 = Inl (TypeError ''not of the same version'')"
    by (simp add: check_scope_def cfg)
  have "check_scope (agent_ipaddress mixed_scope_agent) (agent_config mixed_scope_agent)
          ''10.1.2.0/24'' = Inl (TypeError ''not of the same version'')"
    using scope by (simp add: mixed_scope_agent_def)
  then have pq: "fst (process_query mixed_scope_agent ''scan 10.1.2.0/24'' None None)
                 = Inl (TypeError ''not of the same version'')"
    by (simp add: process_query_def extract_target_network_example)
  from cfg dual_network_examples subnet_of_examples second alone first scope pq
  show ?thesis
    by blast
qed

section \<open>Facts about the session memory\<close>

lemma session_findings_simps [simp]:
  "session_findings (Some (ensure_session clk mem)) = session_findings mem"
  "session_findings (add_conversation clk role content mem) = session_findings mem"
  "session_findings (add_tool_execution clk x mem) = session_findings mem"
  "session_findings (save_session clk mem) = session_findings mem"
  "session_findings (add_finding clk f mem) = session_findings mem @ [f]"
  by (auto simp: session_findings_def ensure_session_def create_session_def add_conversation_def
      add_tool_execution_def save_session_def add_finding_def Let_def split: option.splits)

lemma session_tool_executions_simps [simp]:
  "session_tool_executions (Some (ensure_session clk mem)) = session_tool_executions mem"
  "session_tool_executions (add_conversation clk role content mem) = session_tool_executions mem"
  "session_tool_executions (add_finding clk f mem) = session_tool_executions mem"
  "session_tool_executions (save_session clk mem) = session_tool_executions mem"
  "session_tool_executions (add_tool_execution clk x mem) = session_tool_executions mem @ [x]"
  by (auto simp: session_tool_executions_def ensure_session_def create_session_def add_conversation_def
      add_tool_execution_def save_session_def add_finding_def Let_def split: option.splits)

lemma record_findings_findings:
  "session_findings (snd (record_findings clk name target payloads mem)) =
     session_findings mem
     @ map (build_finding clk name target) (takeWhile (payload_accepted target) payloads)"
  by (induction payloads arbitrary: mem) (simp_all add: make_finding_def)

lemma record_findings_error:
  "fst (record_findings clk name target payloads mem) =
     (if list_all (payload_accepted target) payloads then None else Some validation_error)"
  by (induction payloads arbitrary: mem) (simp_all add: make_finding_def)

lemma record_findings_executions:
  "session_tool_executions (snd (record_findings clk name target payloads mem)) =
     session_tool_executions mem"
  by (induction payloads arbitrary: mem) (simp_all add: make_finding_def)

lemma record_result_error:
  "fst (record_result ag name target r mem) = recording_error target r"
proof (cases "pr_findings r")
  case None
  then show ?thesis
    by (simp add: record_result_def recording_error_def split: option.splits)
next
  case (Some payloads)
  obtain err mem1 where rf:
    "record_findings (agent_clock ag) name target payloads mem = (err, mem1)"
    by (cases "record_findings (agent_clock ag) name target payloads mem")
  with record_findings_error [of "agent_clock ag" name target payloads mem]
  have "err = (if list_all (payload_accepted target) payloads then None else Some validation_error)"
    by simp
  with Some rf show ?thesis
    by (simp add: record_result_def recording_error_def split: option.splits)
qed

lemma record_result_findings:
  "session_findings (snd (record_result ag name target r mem)) =
     session_findings mem @ recorded_findings (agent_clock ag) name target r"
proof (cases "pr_findings r")
  case None
  then show ?thesis
    by (simp add: record_result_def recorded_findings_def split: option.splits)
next
  case (Some payloads)
  obtain err mem1 where rf:
    "record_findings (agent_clock ag) name target payloads mem = (err, mem1)"
    by (cases "record_findings (agent_clock ag) name target payloads mem")
  with record_findings_findings [of "agent_clock ag" name target payloads mem]
  have "session_findings mem1 =
          session_findings mem
          @ map (build_finding (agent_clock ag) name target)
              (takeWhile (payload_accepted target) payloads)"
    by simp
  with Some rf show ?thesis
    by (simp add: record_result_def recorded_findings_def split: option.splits)
qed

lemma record_result_executions:
  "session_tool_executions (snd (record_result ag name target r mem)) =
     session_tool_executions mem
     @ (case recording_error target r of
          Some e \<Rightarrow> []
        | None \<Rightarrow>
            (case pr_raw_result r of
               None \<Rightarrow> []
             | Some raw \<Rightarrow>
                 [make_execution (agent_clock ag) name target raw (agent_str ag r) r]))"
proof (cases "pr_findings r")
  case None
  then show ?thesis
    by (simp add: record_result_def recording_error_def split: option.splits)
next
  case (Some payloads)
  obtain err mem1 where rf:
    "record_findings (agent_clock ag) name target payloads mem = (err, mem1)"
    by (cases "record_findings (agent_clock ag) name target payloads mem")
  with record_findings_error [of "agent_clock ag" name target payloads mem]
    record_findings_executions [of "agent_clock ag" name target payloads mem]
  have "err = (if list_all (payload_accepted target) payloads then None else Some validation_error)"
    "session_tool_executions mem1 = session_tool_executions mem"
    by simp_all
  with Some rf show ?thesis
    by (simp add: record_result_def recording_error_def split: option.splits)
qed

lemma recording_error_is_Exception:
  "recording_error target r = Some e \<Longrightarrow> is_Exception e"
  by (auto simp: recording_error_def validation_error_def split: option.splits if_splits)

section \<open>Facts about the pipeline\<close>

lemma run_plugins_isolated:
  assumes "raise_only_Exception ps context"
  shows "\<exists>mem'.
           run_plugins ag target context ps results mem =
             (Inr (results @ concat (map (plugin_entries target context) ps)), mem')
           \<and> session_findings mem' =
               session_findings mem @ concat (map (plugin_findings ag target context) ps)"
  using assms
proof (induction ps arbitrary: results mem)
  case Nil
  then show ?case by simp
next
  case (Cons p ps)
  from Cons.prems have rest: "raise_only_Exception ps context"
    by (simp add: raise_only_Exception_def)
  show ?case
  proof (cases "plugin_execute p context")
    case (Inr r)
    obtain err mem1 where rr: "record_result ag (plugin_name p) target r mem = (err, mem1)"
      by (cases "record_result ag (plugin_name p) target r mem")
    with record_result_error [of ag "plugin_name p" target r mem]
      record_result_findings [of ag "plugin_name p" target r mem]
    have err: "recording_error target r = err"
      and fs1: "session_findings mem1 =
                  session_findings mem @ recorded_findings (agent_clock ag) (plugin_name p) target r"
      by simp_all
    let ?entries = "plugin_entries target context p"
    have step: "run_plugins ag target context (p # ps) results mem =
                  run_plugins ag target context ps (results @ ?entries) mem1"
    proof (cases err)
      case None
      with Inr rr err show ?thesis
        by (simp add: plugin_entries_def)
    next
      case (Some e)
      with err have "is_Exception e"
        by (simp add: recording_error_is_Exception)
      with Inr rr err Some show ?thesis
        by (simp add: plugin_entries_def)
    qed
    from Cons.IH [OF rest, of "results @ ?entries" mem1]
    obtain mem' where
      run: "run_plugins ag target context ps (results @ ?entries) mem1
              = (Inr ((results @ ?entries) @ concat (map (plugin_entries target context) ps)), mem')"
      and fs: "session_findings mem' =
                 session_findings mem1 @ concat (map (plugin_findings ag target context) ps)"
      by blast
    have "run_plugins ag target context (p # ps) results mem =
            (Inr (results @ concat (map (plugin_entries target context) (p # ps))), mem')"
      using step run by simp
    moreover have "session_findings mem' =
        session_findings mem @ concat (map (plugin_findings ag target context) (p # ps))"
      using Inr fs fs1 by (simp add: plugin_findings_def)
    ultimately show ?thesis by blast
  next
    case (Inl e)
    with Cons.prems have exc: "is_Exception e"
      by (simp add: raise_only_Exception_def)
    let ?entries = "plugin_entries target context p"
    have entries: "?entries = [failure_result (plugin_name p) e]"
      using Inl by (simp add: plugin_entries_def)
    from Cons.IH [OF rest, of "results @ ?entries" mem]
    obtain mem' where
      run: "run_plugins ag target context ps (results @ ?entries) mem
              = (Inr ((results @ ?entries) @ concat (map (plugin_entries target context) ps)), mem')"
      and fs: "session_findings mem' =
                 session_findings mem @ concat (map (plugin_findings ag target context) ps)"
      by blast
    have "run_plugins ag target context (p # ps) results mem =
            (Inr (results @ concat (map (plugin_entries target context) (p # ps))), mem')"
      using Inl exc run entries by simp
    moreover have "session_findings mem' =
        session_findings mem @ concat (map (plugin_findings ag target context) (p # ps))"
      using Inl fs by (simp add: plugin_findings_def)
    ultimately show ?thesis by blast
  qed
qed

lemma dispatch_completed:
  assumes llm: "agent_llm ag (build_planning_prompt query (build_context query target mem))
                  (get_context mem) = Inr plan"
    and exc: "raise_only_Exception (matching_plugins ag query) (build_context query target mem)"
  shows "\<exists>response mem'.
           dispatch ag query target mem =
             (Inr (Completed query target (map plugin_name (matching_plugins ag query))
                     (concat (map (plugin_entries target (build_context query target mem))
                                (matching_plugins ag query)))
                     response plan), mem')
           \<and> session_findings mem' =
               session_findings mem
               @ concat (map (plugin_findings ag target (build_context query target mem))
                           (matching_plugins ag query))"
proof -
  let ?results = "concat (map (plugin_entries target (build_context query target mem))
                            (matching_plugins ag query))"
  from run_plugins_isolated [OF exc, of ag target "[]" mem]
  obtain mem1 where
    run: "run_plugins ag target (build_context query target mem) (matching_plugins ag query) [] mem
            = (Inr ?results, mem1)"
    and fs: "session_findings mem1 =
               session_findings mem
               @ concat (map (plugin_findings ag target (build_context query target mem))
                           (matching_plugins ag query))"
    by auto
  have "dispatch ag query target mem =
          (Inr (Completed query target (map plugin_name (matching_plugins ag query)) ?results
                  (generate_response_summary query ?results plan mem1) plan),
           save_session (agent_clock ag)
             (add_conversation (agent_clock ag) ''assistant''
                (generate_response_summary query ?results plan mem1) mem1))"
    using llm run by (simp add: dispatch_def matching_plugins_def Let_def)
  with fs show ?thesis
    by simp
qed

lemma process_query_reaches_dispatch:
  assumes "passes_scope ag query" and "passes_safety ag query rc"
  shows "process_query ag query rc mem0 =
           dispatch ag query (extract_target query) (logged ag query mem0)"
  using assms
  by (auto simp: process_query_def passes_scope_def passes_safety_def safety_gate_def
      confirmation_required_def logged_def Let_def split: option.splits)

lemma record_result_config_irrelevant:
  "record_result (ag\<lparr>agent_config := c, agent_ipaddress := l\<rparr>) name target r mem
     = record_result ag name target r mem"
  by (simp add: record_result_def cong: option.case_cong prod.case_cong)

lemma run_plugins_config_irrelevant:
  "run_plugins (ag\<lparr>agent_config := c, agent_ipaddress := l\<rparr>) target context ps results mem
     = run_plugins ag target context ps results mem"
  by (induction ps arbitrary: results mem)
    (simp_all add: record_result_config_irrelevant
      cong: sum.case_cong prod.case_cong option.case_cong if_cong)

lemma dispatch_config_irrelevant:
  "dispatch (ag\<lparr>agent_config := c, agent_ipaddress := l\<rparr>) query target mem
     = dispatch ag query target mem"
  by (simp add: dispatch_def pipeline_handler_def run_plugins_config_irrelevant
      cong: sum.case_cong prod.case_cong if_cong)

lemma safety_gate_scope_irrelevant:
  "safety_gate (ag\<lparr>agent_config := (agent_config ag)\<lparr>scope := sc\<rparr>, agent_ipaddress := l\<rparr>)
       query target rc mem
     = safety_gate ag query target rc mem"
  by (simp add: safety_gate_def is_dangerous_action_def dispatch_config_irrelevant
      cong: option.case_cong if_cong)

lemma pipeline_handler_not_out_of_scope:
  "fst (pipeline_handler ag query e mem) = Inr env \<Longrightarrow> \<not> is_out_of_scope env"
  by (cases "is_Exception e") (auto simp: pipeline_handler_def Let_def)

lemma dispatch_not_out_of_scope:
  assumes "fst (dispatch ag query target mem) = Inr env"
  shows "\<not> is_out_of_scope env"
proof (cases "agent_llm ag (build_planning_prompt query (build_context query target mem))
                (get_context mem)")
  case (Inl e)
  then have "dispatch ag query target mem = pipeline_handler ag query e mem"
    by (simp add: dispatch_def)
  with assms show ?thesis
    by (simp add: pipeline_handler_not_out_of_scope)
next
  case (Inr plan)
  obtain r mem' where run:
    "run_plugins ag target (build_context query target mem)
       (filter (\<lambda>p. plugin_matches p query) (agent_plugins ag)) [] mem = (r, mem')"
    by (cases "run_plugins ag target (build_context query target mem)
                 (filter (\<lambda>p. plugin_matches p query) (agent_plugins ag)) [] mem")
  show ?thesis
  proof (cases r)
    case (Inl e)
    with Inr run have "dispatch ag query target mem = pipeline_handler ag query e mem'"
      by (simp add: dispatch_def)
    with assms show ?thesis
      by (simp add: pipeline_handler_not_out_of_scope)
  next
    case results: (Inr results)
    with Inr run have "\<exists>a b c d. fst (dispatch ag query target mem) = Inr (Completed query a b c d plan)"
      by (simp add: dispatch_def Let_def)
    with assms show ?thesis
      by auto
  qed
qed

lemma safety_gate_not_out_of_scope:
  assumes "fst (safety_gate ag query target rc mem) = Inr env"
  shows "\<not> is_out_of_scope env"
proof (cases "is_dangerous_action (agent_config ag) query \<and> confirmation_required ag rc")
  case True
  then have "safety_gate ag query target rc mem =
      (Inr (RequiresConfirmation query
              ''This action requires explicit confirmation. Please confirm to proceed.''), mem)"
    by (simp add: safety_gate_def confirmation_required_def)
  with assms show ?thesis
    by auto
next
  case False
  then have "safety_gate ag query target rc mem = dispatch ag query target mem"
    by (auto simp: safety_gate_def confirmation_required_def)
  with assms show ?thesis
    by (simp add: dispatch_not_out_of_scope)
qed

lemma process_query_gated:
  assumes "is_dangerous_action (agent_config a) query"
    and "confirmation_required a rc"
  shows "process_query a query rc mem0 =
      (case extract_target query of
         None \<Rightarrow> (Inr (RequiresConfirmation query
              ''This action requires explicit confirmation. Please confirm to proceed.''),
                   logged a query mem0)
       | Some tgt \<Rightarrow>
           if tgt = [] then (Inr (RequiresConfirmation query
              ''This action requires explicit confirmation. Please confirm to proceed.''),
                   logged a query mem0)
           else
             (case check_scope (agent_ipaddress a) (agent_config a) tgt of
                Inl e \<Rightarrow> (Inl e, logged a query mem0)
              | Inr False \<Rightarrow>
                  (Inr (OutOfScope (''Target '' @ tgt @ '' is out of scope'') tgt),
                   add_conversation (agent_clock a) ''assistant''
                     (''Error: '' @ (''Target '' @ tgt @ '' is out of scope''))
                     (logged a query mem0))
              | Inr True \<Rightarrow> (Inr (RequiresConfirmation query
              ''This action requires explicit confirmation. Please confirm to proceed.''),
                   logged a query mem0)))"
proof -
  have gate: "safety_gate a query target rc mem =
      (Inr (RequiresConfirmation query
              ''This action requires explicit confirmation. Please confirm to proceed.''), mem)"
    for target mem
    using assms by (simp add: safety_gate_def confirmation_required_def)
  show ?thesis
    unfolding process_query_def Let_def gate logged_def ..
qed

section \<open>The examples, evaluated\<close>

lemma extract_target_examples:
  "extract_target ''scan the network for open ports'' = None"
  "extract_target ''scan 192.168.1.10 for open ports'' = Some ''192.168.1.10''"
  "extract_target ''exploit ms17-010 on 192.168.1.10'' = Some ''192.168.1.10''"
  "extract_target ''exploit ms17-010 on 192.168.1.1'' = Some ''192.168.1.1''"
  by code_simp+

lemma is_dangerous_action_examples:
  "is_dangerous_action scoped_config ''exploit ms17-010 on 192.168.1.10''"
  "is_dangerous_action default_config ''exploit ms17-010 on 192.168.1.1''"
  "\<not> is_dangerous_action scoped_config ''scan 192.168.1.10 for open ports''"
  "\<not> is_dangerous_action default_config ''scan the network for open ports''"
  by code_simp+

lemma nmap_matches_examples:
  "nmap_matches ''scan the network for open ports''"
  "nmap_matches ''scan 192.168.1.10 for open ports''"
  by code_simp+

lemma quick_scan_example:
  "\<not> str_contains ''full'' (lower ''scan 192.168.1.10 for open ports'')"
  "\<not> str_contains ''all ports'' (lower ''scan 192.168.1.10 for open ports'')"
  "\<not> str_contains ''http'' (lower ''scan 192.168.1.10 for open ports'')"
  "\<not> str_contains ''web'' (lower ''scan 192.168.1.10 for open ports'')"
  by code_simp+

lemma check_scope_examples:
  "check_scope ipv4_module scoped_config ''192.168.1.10'' = Inr True"
  "check_scope ipv4_module default_config ''192.168.1.1'' = Inr False"
  by (simp_all add: check_scope_def scoped_config_def default_config_def default_scope_def
      ip_rule_body_def ipv4_network_examples ipv4_address_examples contains_iff_div)

lemma confirmation_required_examples:
  "confirmation_required scoped_agent None"
  "confirmation_required default_agent None"
  by (simp_all add: confirmation_required_def scoped_agent_def scoped_config_def
      default_agent_def default_config_def default_safety_def)

lemma passes_scope_examples:
  "passes_scope scoped_agent ''scan 192.168.1.10 for open ports''"
  "passes_scope scoped_agent ''exploit ms17-010 on 192.168.1.10''"
  "passes_scope default_agent ''scan the network for open ports''"
  by (simp_all add: passes_scope_def extract_target_examples scoped_agent_def
      check_scope_examples)

lemma passes_safety_examples:
  "passes_safety scoped_agent ''scan 192.168.1.10 for open ports'' None"
  "passes_safety default_agent ''scan the network for open ports'' None"
  by (simp_all add: passes_safety_def scoped_agent_def default_agent_def
      is_dangerous_action_examples)

lemma matching_plugins_examples:
  "matching_plugins scoped_agent ''scan 192.168.1.10 for open ports''
     = [raising_plugin, mixed_plugin, nmap_plugin example_nmap]"
  "matching_plugins default_agent ''scan the network for open ports''
     = [nmap_plugin example_nmap]"
  by (simp_all add: matching_plugins_def scoped_agent_def default_agent_def raising_plugin_def
      mixed_plugin_def nmap_plugin_def nmap_matches_examples)

lemma nmap_no_target:
  "plugin_execute (nmap_plugin nmap) (build_context query None mem) =
     Inr \<lparr>pr_success = Some False, pr_plugin = None,
          pr_error = Some ''No target specified'', pr_findings = None,
          pr_raw_result = None, pr_suggested_exploits = None\<rparr>"
  by (simp add: nmap_plugin_def nmap_execute_def build_context_def)

lemma nmap_quick_scan_example:
  "plugin_execute (nmap_plugin example_nmap)
     (build_context ''scan 192.168.1.10 for open ports'' (Some ''192.168.1.10'') mem) =
     Inr (nmap_result ''192.168.1.10''
            \<lparr>sr_success = Some True,
             sr_open_ports = Some [\<lparr>pi_port = Some ''80'', pi_service = Some ''HTTP'',
                                    pi_version = None\<rparr>],
             sr_text = ''scan result''\<rparr>)"
  by (simp add: nmap_plugin_def nmap_execute_def build_context_def quick_scan_example
      example_nmap_def example_scan_def)

lemma raise_only_Exception_examples:
  "raise_only_Exception [raising_plugin, mixed_plugin, nmap_plugin example_nmap]
     (build_context ''scan 192.168.1.10 for open ports'' (Some ''192.168.1.10'') mem)"
  "raise_only_Exception [nmap_plugin example_nmap]
     (build_context ''scan the network for open ports'' None mem)"
  by (simp_all add: raise_only_Exception_def nmap_quick_scan_example nmap_no_target
      raising_plugin_def mixed_plugin_def)

lemma example_llm_returns:
  "agent_llm scoped_agent prompt c = Inr ''I will scan the target for open ports.''"
  "agent_llm default_agent prompt c = Inr ''I will scan the target for open ports.''"
  by (simp_all add: scoped_agent_def default_agent_def example_llm_def)

lemma payload_accepted_examples:
  "payload_accepted target web_payload"
  "payload_accepted target bare_payload"
  "\<not> payload_accepted target rejected_payload"
  by (simp_all add: payload_accepted_def accepted_def web_payload_def bare_payload_def
      rejected_payload_def)

lemma nmap_payloads_accepted:
  "recording_error target (nmap_result tgt scan) = None"
  by (auto simp: recording_error_def nmap_result_def payload_accepted_def accepted_def
      list_all_iff split: option.splits)

lemma recording_error_examples:
  "recording_error target mixed_result = Some validation_error"
  "recording_error target web_result = None"
  "recording_error target bare_result = None"
  by (simp_all add: recording_error_def mixed_result_def web_result_def bare_result_def
      payload_accepted_examples)

lemma plugin_entries_examples:
  "plugin_entries target context raising_plugin
     = [failure_result ''broken'' (Exception ''connection refused'')]"
  "plugin_entries target context mixed_plugin
     = [mixed_result, failure_result ''web_vuln'' validation_error]"
  "plugin_entries (Some ''192.168.1.10'')
       (build_context ''scan 192.168.1.10 for open ports'' (Some ''192.168.1.10'') mem)
       (nmap_plugin example_nmap)
     = [nmap_result ''192.168.1.10''
          \<lparr>sr_success = Some True,
           sr_open_ports = Some [\<lparr>pi_port = Some ''80'', pi_service = Some ''HTTP'',
                                  pi_version = None\<rparr>],
           sr_text = ''scan result''\<rparr>]"
  "plugin_entries None (build_context query None mem) (nmap_plugin nmap)
     = [\<lparr>pr_success = Some False, pr_plugin = None,
          pr_error = Some ''No target specified'', pr_findings = None,
          pr_raw_result = None, pr_suggested_exploits = None\<rparr>]"
proof -
  show "plugin_entries target context raising_plugin
     = [failure_result ''broken'' (Exception ''connection refused'')]"
    by (simp add: plugin_entries_def raising_plugin_def)
  show "plugin_entries target context mixed_plugin
     = [mixed_result, failure_result ''web_vuln'' validation_error]"
    by (simp add: plugin_entries_def mixed_plugin_def recording_error_examples)
  show "plugin_entries (Some ''192.168.1.10'')
       (build_context ''scan 192.168.1.10 for open ports'' (Some ''192.168.1.10'') mem)
       (nmap_plugin example_nmap)
     = [nmap_result ''192.168.1.10''
          \<lparr>sr_success = Some True,
           sr_open_ports = Some [\<lparr>pi_port = Some ''80'', pi_service = Some ''HTTP'',
                                  pi_version = None\<rparr>],
           sr_text = ''scan result''\<rparr>]"
    by (simp add: plugin_entries_def nmap_quick_scan_example nmap_payloads_accepted)
  show "plugin_entries None (build_context query None mem) (nmap_plugin nmap)
     = [\<lparr>pr_success = Some False, pr_plugin = None,
          pr_error = Some ''No target specified'', pr_findings = None,
          pr_raw_result = None, pr_suggested_exploits = None\<rparr>]"
    by (simp add: plugin_entries_def nmap_no_target recording_error_def)
qed

lemma plugin_findings_examples:
  "plugin_findings ag target context raising_plugin = []"
  "map finding_type (plugin_findings ag (Some ''192.168.1.10'') context mixed_plugin)
     = [''web_vulnerability'']"
  "map finding_target (plugin_findings ag (Some ''192.168.1.10'') context mixed_plugin)
     = [''192.168.1.10'']"
  "map finding_type
     (plugin_findings ag (Some ''192.168.1.10'')
        (build_context ''scan 192.168.1.10 for open ports'' (Some ''192.168.1.10'') mem)
        (nmap_plugin example_nmap))
     = [''open_port'']"
  "map finding_target
     (plugin_findings ag (Some ''192.168.1.10'')
        (build_context ''scan 192.168.1.10 for open ports'' (Some ''192.168.1.10'') mem)
        (nmap_plugin example_nmap))
     = [''192.168.1.10'']"
proof -
  show "plugin_findings ag target context raising_plugin = []"
    by (simp add: plugin_findings_def raising_plugin_def)
  have one: "plugin_findings ag (Some ''192.168.1.10'') context mixed_plugin
               = [build_finding (agent_clock ag) ''web_vuln'' (Some ''192.168.1.10'') web_payload]"
    by (simp add: plugin_findings_def mixed_plugin_def mixed_result_def recorded_findings_def
        payload_accepted_examples)
  show "map finding_type (plugin_findings ag (Some ''192.168.1.10'') context mixed_plugin)
     = [''web_vulnerability'']"
    by (simp add: one build_finding_def entry_or_def web_payload_def)
  show "map finding_target (plugin_findings ag (Some ''192.168.1.10'') context mixed_plugin)
     = [''192.168.1.10'']"
    by (simp add: one build_finding_def target_or_def)
  have nmap: "pr_findings (nmap_result ''192.168.1.10''
            \<lparr>sr_success = Some True,
             sr_open_ports = Some [\<lparr>pi_port = Some ''80'', pi_service = Some ''HTTP'',
                                    pi_version = None\<rparr>],
             sr_text = ''scan result''\<rparr>)
       = Some [\<lparr>fd_type = Present ''open_port'', fd_target = Present ''192.168.1.10'',
               fd_severity = Present ''info'', fd_description = Absent,
               fd_evidence = Absent, fd_recommendations = Absent\<rparr>]"
    by (simp add: nmap_result_def get_or_def)
  show "map finding_type
     (plugin_findings ag (Some ''192.168.1.10'')
        (build_context ''scan 192.168.1.10 for open ports'' (Some ''192.168.1.10'') mem)
        (nmap_plugin example_nmap))
     = [''open_port'']"
    by (simp add: plugin_findings_def nmap_quick_scan_example recorded_findings_def nmap
        payload_accepted_def accepted_def build_finding_def entry_or_def)
  show "map finding_target
     (plugin_findings ag (Some ''192.168.1.10'')
        (build_context ''scan 192.168.1.10 for open ports'' (Some ''192.168.1.10'') mem)
        (nmap_plugin example_nmap))
     = [''192.168.1.10'']"
    by (simp add: plugin_findings_def nmap_quick_scan_example recorded_findings_def nmap
        payload_accepted_def accepted_def build_finding_def target_or_def)
qed

section \<open>The safety gate in the pipeline\<close>

text \<open>
  What the code does with a query that the dangerous-action check flags, when
  confirmation is required: if the query has no target or its target is in scope,
  \<open>process_query\<close> returns the envelope with \<open>requires_confirmation\<close> true and \<open>success\<close>
  false, having only logged the query; whatever the scope check says, every envelope it
  returns has \<open>success\<close> false, no finding and no tool execution is added to the session,
  and the plugins and the language model have no part in the outcome.
\<close>

lemma dangerous_query_halts:
  assumes "is_dangerous_action (agent_config ag) query"
    and "confirmation_required ag rc"
  shows "(passes_scope ag query \<longrightarrow>
            (\<exists>env. process_query ag query rc mem0 = (Inr env, logged ag query mem0)
                 \<and> env = RequiresConfirmation query
                     ''This action requires explicit confirmation. Please confirm to proceed.''
                 \<and> success env = False \<and> requires_confirmation_key env = Some True))
         \<and> (\<forall>env. fst (process_query ag query rc mem0) = Inr env \<longrightarrow> success env = False)
         \<and> session_findings (snd (process_query ag query rc mem0)) = session_findings mem0
         \<and> session_tool_executions (snd (process_query ag query rc mem0))
             = session_tool_executions mem0
         \<and> process_query (ag\<lparr>agent_plugins := ps, agent_llm := llm\<rparr>) query rc mem0
             = process_query ag query rc mem0"
proof -
  note pq = process_query_gated [OF assms, of mem0]
  have assms': "is_dangerous_action (agent_config (ag\<lparr>agent_plugins := ps, agent_llm := llm\<rparr>)) query"
    "confirmation_required (ag\<lparr>agent_plugins := ps, agent_llm := llm\<rparr>) rc"
    using assms by (simp_all add: confirmation_required_def split: option.splits)
  note pq' = process_query_gated [OF assms', of mem0]
  have c1: "passes_scope ag query \<longrightarrow>
            (\<exists>env. process_query ag query rc mem0 = (Inr env, logged ag query mem0)
                 \<and> env = RequiresConfirmation query
                     ''This action requires explicit confirmation. Please confirm to proceed.''
                 \<and> success env = False \<and> requires_confirmation_key env = Some True)"
    by (auto simp: pq passes_scope_def split: option.splits)
  have c2: "\<forall>env. fst (process_query ag query rc mem0) = Inr env \<longrightarrow> success env = False"
    by (auto simp: pq split: option.splits sum.splits bool.splits if_splits)
  have c3: "session_findings (snd (process_query ag query rc mem0)) = session_findings mem0"
    by (simp add: pq logged_def split: option.splits sum.splits bool.splits)
  have c4: "session_tool_executions (snd (process_query ag query rc mem0))
             = session_tool_executions mem0"
    by (simp add: pq logged_def split: option.splits sum.splits bool.splits)
  have c5: "process_query (ag\<lparr>agent_plugins := ps, agent_llm := llm\<rparr>) query rc mem0
             = process_query ag query rc mem0"
    by (simp add: pq pq' logged_def cong: option.case_cong sum.case_cong bool.case_cong if_cong)
  from c1 c2 c3 c4 c5 show ?thesis
    by blast
qed

text \<open>A flagged query whose target is in scope is held back for confirmation.\<close>

lemma dangerous_query_in_scope_example:
  "is_dangerous_action (agent_config scoped_agent) ''exploit ms17-010 on 192.168.1.10''
   \<and> confirmation_required scoped_agent None
   \<and> passes_scope scoped_agent ''exploit ms17-010 on 192.168.1.10''
   \<and> fst (process_query scoped_agent ''exploit ms17-010 on 192.168.1.10'' None None)
       = Inr (RequiresConfirmation ''exploit ms17-010 on 192.168.1.10''
                ''This action requires explicit confirmation. Please confirm to proceed.'')
   \<and> session_findings
         (snd (process_query scoped_agent ''exploit ms17-010 on 192.168.1.10'' None None)) = []
   \<and> session_tool_executions
         (snd (process_query scoped_agent ''exploit ms17-010 on 192.168.1.10'' None None)) = []"
proof -
  have h1: "is_dangerous_action (agent_config scoped_agent) ''exploit ms17-010 on 192.168.1.10''"
    by (simp add: scoped_agent_def is_dangerous_action_examples)
  note h2 = confirmation_required_examples(1)
  note h3 = passes_scope_examples(2)
  have empty: "session_findings None = []" "session_tool_executions None = []"
    by (simp_all add: session_findings_def session_tool_executions_def)
  from dangerous_query_halts [OF h1 h2, of None] h3
  have a: "\<exists>env. process_query scoped_agent ''exploit ms17-010 on 192.168.1.10'' None None
                  = (Inr env, logged scoped_agent ''exploit ms17-010 on 192.168.1.10'' None)
              \<and> env = RequiresConfirmation ''exploit ms17-010 on 192.168.1.10''
                  ''This action requires explicit confirmation. Please confirm to proceed.''"
    and b: "session_findings
           (snd (process_query scoped_agent ''exploit ms17-010 on 192.168.1.10'' None None))
         = session_findings None"
    and c: "session_tool_executions
           (snd (process_query scoped_agent ''exploit ms17-010 on 192.168.1.10'' None None))
         = session_tool_executions None"
    by blast+
  from a have "fst (process_query scoped_agent ''exploit ms17-010 on 192.168.1.10'' None None)
       = Inr (RequiresConfirmation ''exploit ms17-010 on 192.168.1.10''
                ''This action requires explicit confirmation. Please confirm to proceed.'')"
    by auto
  with h1 h2 h3 b c show ?thesis
    by (simp add: empty)
qed

text \<open>
  Claim C1. For every query that contains a configured dangerous keyword, when
  confirmation is required, \<open>process_query\<close> is to return the envelope with
  \<open>requires_confirmation\<close> true and \<open>success\<close> false. The code departs from this where the
  target of the query is out of scope, because it checks the scope before the keywords.
  Under the default configuration (strict mode, empty allow-lists, confirmation
  required, keywords \<open>exploit\<close>, \<open>payload\<close>, \<open>inject\<close>) the query
  \<open>exploit ms17-010 on 192.168.1.1\<close> is flagged by the dangerous-action check, and
  \<open>process_query\<close> returns the out-of-scope envelope, which has no \<open>requires_confirmation\<close>
  key. This is the input of the repository's test \<open>test_confirmation_required\<close>
  (tests/test_confirmation.py), which expects \<open>requires_confirmation\<close> to be true.
\<close>

theorem dangerous_query_out_of_scope:
  "agent_config default_agent = default_config
   \<and> is_dangerous_action (agent_config default_agent) ''exploit ms17-010 on 192.168.1.1''
   \<and> confirmation_required default_agent None
   \<and> fst (process_query default_agent ''exploit ms17-010 on 192.168.1.1'' None None)
       = Inr (OutOfScope ''Target 192.168.1.1 is out of scope'' ''192.168.1.1'')
   \<and> success (OutOfScope ''Target 192.168.1.1 is out of scope'' ''192.168.1.1'') = False
   \<and> requires_confirmation_key
         (OutOfScope ''Target 192.168.1.1 is out of scope'' ''192.168.1.1'') = None"
proof -
  have h0: "agent_config default_agent = default_config"
    by (simp add: default_agent_def)
  have h1: "is_dangerous_action (agent_config default_agent) ''exploit ms17-010 on 192.168.1.1''"
    by (simp add: default_agent_def is_dangerous_action_examples)
  note h2 = confirmation_required_examples(2)
  have "check_scope (agent_ipaddress default_agent) (agent_config default_agent) ''192.168.1.1''
          = Inr False"
    by (simp add: default_agent_def check_scope_examples)
  with process_query_gated [OF h1 h2, of None] h0 h1 h2 show ?thesis
    by (simp add: extract_target_examples)
qed

section \<open>Queries without a target\<close>

text \<open>
  Claim C4. When the target extractor returns no target, \<open>process_query\<close> goes from
  logging the query straight to the safety gate and, unless the gate holds the query
  back, to plugin dispatch. No scope check takes place: the outcome is the same under
  every scope configuration and every pair of parsers, and the returned envelope is
  never the out-of-scope rejection. This holds in strict mode with both allow-lists
  empty as well.
\<close>

theorem no_target_no_scope_check:
  "extract_target query = None \<Longrightarrow>
     process_query ag query rc mem0 = safety_gate ag query None rc (logged ag query mem0)
     \<and> (passes_safety ag query rc \<longrightarrow>
          process_query ag query rc mem0 = dispatch ag query None (logged ag query mem0))
     \<and> process_query
          (ag\<lparr>agent_config := (agent_config ag)\<lparr>scope := sc\<rparr>, agent_ipaddress := lib\<rparr>)
          query rc mem0
        = process_query ag query rc mem0
     \<and> (\<forall>env. fst (process_query ag query rc mem0) = Inr env \<longrightarrow> \<not> is_out_of_scope env)"
proof -
  assume none: "extract_target query = None"
  let ?ag' = "ag\<lparr>agent_config := (agent_config ag)\<lparr>scope := sc\<rparr>, agent_ipaddress := lib\<rparr>"
  have gate: "process_query a query rc mem0 = safety_gate a query None rc (logged a query mem0)"
    for a
    using none by (simp add: process_query_def logged_def)
  have "logged ?ag' query mem0 = logged ag query mem0"
    by (simp add: logged_def)
  then have same: "safety_gate ?ag' query None rc (logged ?ag' query mem0) =
                safety_gate ag query None rc (logged ag query mem0)"
    by (simp add: safety_gate_scope_irrelevant)
  have disp: "process_query ag query rc mem0 = dispatch ag query None (logged ag query mem0)"
    if "passes_safety ag query rc"
    using that by (auto simp: gate safety_gate_def passes_safety_def confirmation_required_def)
  have noos: "\<not> is_out_of_scope env" if "fst (process_query ag query rc mem0) = Inr env" for env
    using that by (simp add: gate safety_gate_not_out_of_scope)
  have c3: "process_query ?ag' query rc mem0 = process_query ag query rc mem0"
    using gate [of ag] gate [of ?ag'] same by simp
  from gate [of ag] disp c3 noos show ?thesis
    by blast
qed

theorem no_target_no_scope_check_witness:
  "extract_target ''scan the network for open ports'' = None
   \<and> strict_mode (scope (agent_config default_agent))
   \<and> allowed_ips (scope (agent_config default_agent)) = []
   \<and> allowed_domains (scope (agent_config default_agent)) = []
   \<and> passes_safety default_agent ''scan the network for open ports'' None
   \<and> process_query default_agent ''scan the network for open ports'' None None
       = dispatch default_agent ''scan the network for open ports'' None
           (logged default_agent ''scan the network for open ports'' None)
   \<and> (\<exists>results response plan mem'.
         process_query default_agent ''scan the network for open ports'' None None
           = (Inr (Completed ''scan the network for open ports'' None [''nmap'']
                     results response plan), mem'))"
proof -
  note h1 = extract_target_examples(1)
  note h2 = passes_safety_examples(2)
  have cfg: "strict_mode (scope (agent_config default_agent))"
    "allowed_ips (scope (agent_config default_agent)) = []"
    "allowed_domains (scope (agent_config default_agent)) = []"
    by (simp_all add: default_agent_def default_config_def default_scope_def)
  from no_target_no_scope_check [OF h1, of default_agent None None] h2
  have pq: "process_query default_agent ''scan the network for open ports'' None None
       = dispatch default_agent ''scan the network for open ports'' None
           (logged default_agent ''scan the network for open ports'' None)"
    by blast
  have "\<exists>results response mem'.
          dispatch default_agent ''scan the network for open ports'' None
            (logged default_agent ''scan the network for open ports'' None)
          = (Inr (Completed ''scan the network for open ports'' None
                   (map plugin_name (matching_plugins default_agent
                                       ''scan the network for open ports''))
                   results response ''I will scan the target for open ports.''), mem')"
    using dispatch_completed [of default_agent "''scan the network for open ports''" None
        "logged default_agent ''scan the network for open ports'' None"
        "''I will scan the target for open ports.''"]
    by (auto simp: example_llm_returns matching_plugins_examples raise_only_Exception_examples)
  then have "\<exists>results response plan mem'.
         process_query default_agent ''scan the network for open ports'' None None
           = (Inr (Completed ''scan the network for open ports'' None [''nmap'']
                     results response plan), mem')"
    by (auto simp: pq matching_plugins_examples nmap_plugin_def)
  with h1 h2 cfg pq show ?thesis
    by blast
qed

section \<open>Plugin dispatch\<close>

text \<open>
  Claim C5. For every list of registered plugins and every query that reaches dispatch
  (the language model returning its plan): the plugins run are those whose \<open>matches\<close>
  holds on the query, in registration order -- \<open>plugins_executed\<close> lists their names,
  and the result list is made of the entries of each of them, in the same order. Where
  the \<open>execute\<close> of a selected plugin raises an exception (an \<open>Exception\<close>, what the
  handler catches), its entry is a failure with \<open>success\<close> false and the exception's text
  as \<open>error\<close>, at the plugin's place between the entries of the plugins selected before
  and after it. Every selected plugin contributes its findings to the session whatever
  the others did: the session's findings grow by the findings of the selected plugins,
  in order.
\<close>

theorem plugin_dispatch_isolated:
  assumes "passes_scope ag query" and "passes_safety ag query rc"
    and "agent_llm ag
           (build_planning_prompt query
              (build_context query (extract_target query) (logged ag query mem0)))
           (get_context (logged ag query mem0)) = Inr plan"
    and "raise_only_Exception (matching_plugins ag query)
           (build_context query (extract_target query) (logged ag query mem0))"
  shows "\<exists>results response mem'.
           process_query ag query rc mem0 =
             (Inr (Completed query (extract_target query)
                     (map plugin_name (matching_plugins ag query)) results response plan), mem')
           \<and> results =
               concat (map (plugin_entries (extract_target query)
                              (build_context query (extract_target query)
                                 (logged ag query mem0)))
                         (matching_plugins ag query))
           \<and> (\<forall>before p after e.
                 matching_plugins ag query = before @ p # after
                 \<and> plugin_execute p
                       (build_context query (extract_target query) (logged ag query mem0))
                     = Inl e
                 \<longrightarrow> (\<exists>failure.
                        results =
                          concat (map (plugin_entries (extract_target query)
                                         (build_context query (extract_target query)
                                            (logged ag query mem0))) before)
                          @ failure
                          # concat (map (plugin_entries (extract_target query)
                                           (build_context query (extract_target query)
                                              (logged ag query mem0))) after)
                        \<and> pr_success failure = Some False
                        \<and> pr_error failure = Some (exn_str e)))
           \<and> session_findings mem' =
               session_findings mem0
               @ concat (map (plugin_findings ag (extract_target query)
                                (build_context query (extract_target query)
                                   (logged ag query mem0)))
                           (matching_plugins ag query))"
proof -
  let ?ctx = "build_context query (extract_target query) (logged ag query mem0)"
  let ?entries = "plugin_entries (extract_target query) ?ctx"
  let ?results = "concat (map ?entries (matching_plugins ag query))"
  have logged: "session_findings (logged ag query mem0) = session_findings mem0"
    by (simp add: logged_def)
  from dispatch_completed [OF assms(3) assms(4)]
  obtain response mem' where
    d: "dispatch ag query (extract_target query) (logged ag query mem0) =
          (Inr (Completed query (extract_target query)
                  (map plugin_name (matching_plugins ag query)) ?results response plan), mem')"
    and fs: "session_findings mem' =
               session_findings (logged ag query mem0)
               @ concat (map (plugin_findings ag (extract_target query) ?ctx)
                           (matching_plugins ag query))"
    by blast
  have place: "\<exists>failure.
                 ?results = concat (map ?entries before) @ failure # concat (map ?entries after)
                 \<and> pr_success failure = Some False \<and> pr_error failure = Some (exn_str e)"
    if "matching_plugins ag query = before @ p # after" and "plugin_execute p ?ctx = Inl e"
    for before p after e
  proof -
    have "?entries p = [failure_result (plugin_name p) e]"
      using that(2) by (simp add: plugin_entries_def)
    then have "?results = concat (map ?entries before) @ failure_result (plugin_name p) e
                            # concat (map ?entries after)"
      using that(1) by simp
    moreover have "pr_success (failure_result (plugin_name p) e) = Some False"
      "pr_error (failure_result (plugin_name p) e) = Some (exn_str e)"
      by (simp_all add: failure_result_def)
    ultimately show ?thesis
      by blast
  qed
  have pq: "process_query ag query rc mem0 =
          (Inr (Completed query (extract_target query)
                  (map plugin_name (matching_plugins ag query)) ?results response plan), mem')"
    using d by (simp add: process_query_reaches_dispatch [OF assms(1) assms(2)])
  have fs': "session_findings mem' =
               session_findings mem0
               @ concat (map (plugin_findings ag (extract_target query) ?ctx)
                           (matching_plugins ag query))"
    using fs logged by simp
  have "process_query ag query rc mem0 =
          (Inr (Completed query (extract_target query)
                  (map plugin_name (matching_plugins ag query)) ?results response plan), mem')
        \<and> ?results = ?results
        \<and> (\<forall>before p after e.
              matching_plugins ag query = before @ p # after \<and> plugin_execute p ?ctx = Inl e
              \<longrightarrow> (\<exists>failure.
                     ?results = concat (map ?entries before) @ failure
                                  # concat (map ?entries after)
                     \<and> pr_success failure = Some False
                     \<and> pr_error failure = Some (exn_str e)))
        \<and> session_findings mem' =
            session_findings mem0
            @ concat (map (plugin_findings ag (extract_target query) ?ctx)
                        (matching_plugins ag query))"
    using pq place fs' by blast
  then show ?thesis
    by (intro exI [of _ ?results] exI [of _ response] exI [of _ mem'])
qed

theorem plugin_dispatch_isolated_witness:
  "passes_scope scoped_agent ''scan 192.168.1.10 for open ports''
   \<and> passes_safety scoped_agent ''scan 192.168.1.10 for open ports'' None
   \<and> raise_only_Exception (matching_plugins scoped_agent ''scan 192.168.1.10 for open ports'')
         (build_context ''scan 192.168.1.10 for open ports''
            (extract_target ''scan 192.168.1.10 for open ports'')
            (logged scoped_agent ''scan 192.168.1.10 for open ports'' None))
   \<and> matching_plugins scoped_agent ''scan 192.168.1.10 for open ports''
       = [] @ raising_plugin # [mixed_plugin, nmap_plugin example_nmap]
   \<and> plugin_execute raising_plugin
         (build_context ''scan 192.168.1.10 for open ports''
            (extract_target ''scan 192.168.1.10 for open ports'')
            (logged scoped_agent ''scan 192.168.1.10 for open ports'' None))
       = Inl (Exception ''connection refused'')
   \<and> (\<exists>results response mem'.
         process_query scoped_agent ''scan 192.168.1.10 for open ports'' None None
           = (Inr (Completed ''scan 192.168.1.10 for open ports'' (Some ''192.168.1.10'')
                     [''broken'', ''web_vuln'', ''nmap''] results response
                     ''I will scan the target for open ports.''), mem')
         \<and> map pr_success results = [Some False, Some True, Some False, Some True]
         \<and> map pr_error results
             = [Some ''connection refused'', None, Some ''validation error for Finding'', None]
         \<and> map finding_type (session_findings mem') = [''web_vulnerability'', ''open_port'']
         \<and> map finding_target (session_findings mem') = [''192.168.1.10'', ''192.168.1.10''])"
proof -
  let ?q = "''scan 192.168.1.10 for open ports''"
  let ?ctx = "build_context ?q (Some ''192.168.1.10'') (logged scoped_agent ?q None)"
  note h1 = passes_scope_examples(1)
  note h2 = passes_safety_examples(1)
  have h3: "agent_llm scoped_agent
              (build_planning_prompt ?q
                 (build_context ?q (extract_target ?q) (logged scoped_agent ?q None)))
              (get_context (logged scoped_agent ?q None))
            = Inr ''I will scan the target for open ports.''"
    by (rule example_llm_returns)
  have h4: "raise_only_Exception (matching_plugins scoped_agent ?q)
              (build_context ?q (extract_target ?q) (logged scoped_agent ?q None))"
    by (simp add: matching_plugins_examples extract_target_examples
        raise_only_Exception_examples)
  have split: "matching_plugins scoped_agent ?q
                 = [] @ raising_plugin # [mixed_plugin, nmap_plugin example_nmap]"
    by (simp add: matching_plugins_examples)
  have raises: "plugin_execute raising_plugin
                  (build_context ?q (extract_target ?q) (logged scoped_agent ?q None))
                = Inl (Exception ''connection refused'')"
    by (simp add: raising_plugin_def)
  from plugin_dispatch_isolated [OF h1 h2 h3 h4]
  obtain results response mem' where
    pq: "process_query scoped_agent ?q None None
           = (Inr (Completed ?q (Some ''192.168.1.10'')
                     (map plugin_name [raising_plugin, mixed_plugin, nmap_plugin example_nmap])
                     results response ''I will scan the target for open ports.''), mem')"
    and rs: "results = concat (map (plugin_entries (Some ''192.168.1.10'') ?ctx)
                         [raising_plugin, mixed_plugin, nmap_plugin example_nmap])"
    and fs: "session_findings mem' =
               session_findings None
               @ concat (map (plugin_findings scoped_agent (Some ''192.168.1.10'') ?ctx)
                           [raising_plugin, mixed_plugin, nmap_plugin example_nmap])"
    by (auto simp: matching_plugins_examples extract_target_examples)
  have names: "map plugin_name [raising_plugin, mixed_plugin, nmap_plugin example_nmap]
                 = [''broken'', ''web_vuln'', ''nmap'']"
    by (simp add: raising_plugin_def mixed_plugin_def nmap_plugin_def)
  have empty: "session_findings None = []"
    by (simp add: session_findings_def)
  have e1: "map pr_success results = [Some False, Some True, Some False, Some True]"
    by (simp add: rs plugin_entries_examples failure_result_def mixed_result_def
        nmap_result_def get_or_def)
  have e2: "map pr_error results
              = [Some ''connection refused'', None, Some ''validation error for Finding'', None]"
    by (simp add: rs plugin_entries_examples failure_result_def mixed_result_def
        nmap_result_def validation_error_def)
  have f1: "map finding_type (session_findings mem') = [''web_vulnerability'', ''open_port'']"
    by (simp add: fs empty plugin_findings_examples)
  have f2: "map finding_target (session_findings mem') = [''192.168.1.10'', ''192.168.1.10'']"
    by (simp add: fs empty plugin_findings_examples)
  from pq names e1 e2 f1 f2
  have "\<exists>results response mem'.
         process_query scoped_agent ?q None None
           = (Inr (Completed ?q (Some ''192.168.1.10'')
                     [''broken'', ''web_vuln'', ''nmap''] results response
                     ''I will scan the target for open ports.''), mem')
         \<and> map pr_success results = [Some False, Some True, Some False, Some True]
         \<and> map pr_error results
             = [Some ''connection refused'', None, Some ''validation error for Finding'', None]
         \<and> map finding_type (session_findings mem') = [''web_vulnerability'', ''open_port'']
         \<and> map finding_target (session_findings mem') = [''192.168.1.10'', ''192.168.1.10'']"
    by auto
  with h1 h2 h4 split raises show ?thesis
    by blast
qed

section \<open>Recording findings\<close>

text \<open>
  Claim C9, as amended. For every plugin result that carries finding payloads, the
  recorder builds one finding for each payload up to the first one that the \<open>Finding\<close>
  model rejects, and appends them, in order, to the session's findings; when no payload
  is rejected that is one finding per payload, and recording raises nothing. The target
  of each finding is the target the pipeline extracted from the query when there is
  one; only without a pipeline target is it the payload's own target, or the empty
  string when the payload names none. The severity is the payload's, and \<open>info\<close> when
  the payload names none.
\<close>

theorem findings_recorded:
  "pr_findings r = Some payloads \<Longrightarrow>
     session_findings (snd (record_result ag name target r mem))
       = session_findings mem
         @ map (build_finding (agent_clock ag) name target)
             (takeWhile (payload_accepted target) payloads)
     \<and> (list_all (payload_accepted target) payloads \<longrightarrow>
          fst (record_result ag name target r mem) = None
          \<and> session_findings (snd (record_result ag name target r mem))
              = session_findings mem @ map (build_finding (agent_clock ag) name target) payloads)
     \<and> (\<not> list_all (payload_accepted target) payloads \<longrightarrow>
          fst (record_result ag name target r mem) = Some validation_error)
     \<and> (\<forall>t. target = Some t \<and> t \<noteq> [] \<longrightarrow>
            finding_target (build_finding (agent_clock ag) name target payload) = t)
     \<and> (\<forall>own. \<not> truthy target \<and> fd_target payload = Present own \<longrightarrow>
            finding_target (build_finding (agent_clock ag) name target payload) = own)
     \<and> (\<not> truthy target \<and> fd_target payload = Absent \<longrightarrow>
            finding_target (build_finding (agent_clock ag) name target payload) = [])
     \<and> (\<forall>sev. fd_severity payload = Present sev \<longrightarrow>
            finding_severity (build_finding (agent_clock ag) name target payload) = sev)
     \<and> (fd_severity payload = Absent \<longrightarrow>
            finding_severity (build_finding (agent_clock ag) name target payload) = ''info'')"
proof -
  assume r: "pr_findings r = Some payloads"
  have fs: "session_findings (snd (record_result ag name target r mem))
       = session_findings mem
         @ map (build_finding (agent_clock ag) name target)
             (takeWhile (payload_accepted target) payloads)"
    using r by (simp add: record_result_findings recorded_findings_def)
  have err: "fst (record_result ag name target r mem)
       = (if list_all (payload_accepted target) payloads then None else Some validation_error)"
    using r by (simp add: record_result_error recording_error_def)
  have tgt: "finding_target (build_finding (agent_clock ag) name target payload) = t"
    if "target = Some t" "t \<noteq> []" for t
    using that by (simp add: build_finding_def target_or_def)
  have own: "finding_target (build_finding (agent_clock ag) name target payload)
               = entry_or [] (fd_target payload)"
    if "\<not> truthy target"
    using that by (auto simp: build_finding_def target_or_def truthy_def split: option.splits)
  have sev: "finding_severity (build_finding (agent_clock ag) name target payload)
               = entry_or ''info'' (fd_severity payload)"
    by (simp add: build_finding_def)
  have c2: "list_all (payload_accepted target) payloads \<longrightarrow>
          fst (record_result ag name target r mem) = None
          \<and> session_findings (snd (record_result ag name target r mem))
              = session_findings mem @ map (build_finding (agent_clock ag) name target) payloads"
  proof
    assume a: "list_all (payload_accepted target) payloads"
    then have "takeWhile (payload_accepted target) payloads = payloads"
      by (simp add: list_all_iff)
    with fs err a show "fst (record_result ag name target r mem) = None
          \<and> session_findings (snd (record_result ag name target r mem))
              = session_findings mem @ map (build_finding (agent_clock ag) name target) payloads"
      by simp
  qed
  have c3: "\<not> list_all (payload_accepted target) payloads \<longrightarrow>
          fst (record_result ag name target r mem) = Some validation_error"
    using err by simp
  have c5: "\<forall>own. \<not> truthy target \<and> fd_target payload = Present own \<longrightarrow>
            finding_target (build_finding (agent_clock ag) name target payload) = own"
    using own by (simp add: entry_or_def)
  have c6: "\<not> truthy target \<and> fd_target payload = Absent \<longrightarrow>
            finding_target (build_finding (agent_clock ag) name target payload) = []"
    using own by (simp add: entry_or_def)
  have c7: "\<forall>sev. fd_severity payload = Present sev \<longrightarrow>
            finding_severity (build_finding (agent_clock ag) name target payload) = sev"
    using sev by (simp add: entry_or_def)
  have c8: "fd_severity payload = Absent \<longrightarrow>
            finding_severity (build_finding (agent_clock ag) name target payload) = ''info''"
    using sev by (simp add: entry_or_def)
  from fs c2 c3 tgt c5 c6 c7 c8 show ?thesis
    by blast
qed

theorem findings_recorded_witness:
  "pr_findings web_result = Some [web_payload]
   \<and> list_all (payload_accepted (Some ''192.168.1.10'')) [web_payload]
   \<and> map finding_target
         (session_findings
            (snd (record_result default_agent ''web_vuln'' (Some ''192.168.1.10'')
                    web_result None)))
       = [''192.168.1.10'']
   \<and> map finding_severity
         (session_findings
            (snd (record_result default_agent ''web_vuln'' (Some ''192.168.1.10'')
                    web_result None)))
       = [''medium'']
   \<and> pr_findings bare_result = Some [bare_payload]
   \<and> \<not> truthy None
   \<and> map finding_target
         (session_findings (snd (record_result default_agent ''notes'' None bare_result None)))
       = [[]]
   \<and> map finding_severity
         (session_findings (snd (record_result default_agent ''notes'' None bare_result None)))
       = [''info'']
   \<and> pr_findings mixed_result = Some [web_payload, rejected_payload, bare_payload]
   \<and> \<not> list_all (payload_accepted None) [web_payload, rejected_payload, bare_payload]
   \<and> fst (record_result default_agent ''web_vuln'' None mixed_result None)
       = Some validation_error
   \<and> map finding_target
         (session_findings
            (snd (record_result default_agent ''web_vuln'' None mixed_result None)))
       = [''http://192.168.1.10'']"
proof -
  have w: "pr_findings web_result = Some [web_payload]"
    by (simp add: web_result_def)
  have b: "pr_findings bare_result = Some [bare_payload]"
    by (simp add: bare_result_def)
  have m: "pr_findings mixed_result = Some [web_payload, rejected_payload, bare_payload]"
    by (simp add: mixed_result_def)
  have empty: "session_findings None = []"
    by (simp add: session_findings_def)
  have fields: "fd_target web_payload = Present ''http://192.168.1.10''"
    "fd_severity web_payload = Present ''medium''"
    "fd_target bare_payload = Absent" "fd_severity bare_payload = Absent"
    by (simp_all add: web_payload_def bare_payload_def)
  from findings_recorded [OF w, of default_agent "''web_vuln''" "Some ''192.168.1.10''" None
      web_payload]
  have w1: "session_findings
              (snd (record_result default_agent ''web_vuln'' (Some ''192.168.1.10'')
                      web_result None))
            = [build_finding (agent_clock default_agent) ''web_vuln'' (Some ''192.168.1.10'')
                 web_payload]"
    and w2: "finding_target (build_finding (agent_clock default_agent) ''web_vuln''
                               (Some ''192.168.1.10'') web_payload) = ''192.168.1.10''"
    and w3: "finding_severity (build_finding (agent_clock default_agent) ''web_vuln''
                                 (Some ''192.168.1.10'') web_payload) = ''medium''"
    by (simp_all add: empty payload_accepted_examples fields)
  from findings_recorded [OF b, of default_agent "''notes''" None None bare_payload]
  have b1: "session_findings (snd (record_result default_agent ''notes'' None bare_result None))
            = [build_finding (agent_clock default_agent) ''notes'' None bare_payload]"
    and b2: "finding_target (build_finding (agent_clock default_agent) ''notes'' None
                               bare_payload) = []"
    and b3: "finding_severity (build_finding (agent_clock default_agent) ''notes'' None
                                 bare_payload) = ''info''"
    by (simp_all add: empty payload_accepted_examples fields truthy_def)
  from findings_recorded [OF m, of default_agent "''web_vuln''" None None web_payload]
  have m1: "session_findings
              (snd (record_result default_agent ''web_vuln'' None mixed_result None))
            = [build_finding (agent_clock default_agent) ''web_vuln'' None web_payload]"
    and m2: "fst (record_result default_agent ''web_vuln'' None mixed_result None)
               = Some validation_error"
    and m3: "finding_target (build_finding (agent_clock default_agent) ''web_vuln'' None
                               web_payload) = ''http://192.168.1.10''"
    by (simp_all add: empty payload_accepted_examples fields truthy_def)
  from w b m w1 w2 w3 b1 b2 b3 m1 m2 m3 show ?thesis
    by (simp add: payload_accepted_examples truthy_def)
qed

text \<open>
  The claim as stated fails where the payload names a target of its own and the pipeline
  has one too: the finding gets the pipeline's target, not the payload's.
\<close>

theorem payload_target_counterexample:
  "pr_findings web_result = Some [web_payload]
   \<and> fd_target web_payload = Present ''http://192.168.1.10''
   \<and> map finding_target
         (session_findings
            (snd (record_result default_agent ''web_vuln'' (Some ''192.168.1.10'')
                    web_result None)))
       = [''192.168.1.10'']"
proof -
  have empty: "session_findings None = []"
    by (simp add: session_findings_def)
  have "recorded_findings (agent_clock default_agent) ''web_vuln'' (Some ''192.168.1.10'')
          web_result
        = [build_finding (agent_clock default_agent) ''web_vuln'' (Some ''192.168.1.10'')
             web_payload]"
    by (simp add: recorded_findings_def web_result_def payload_accepted_examples)
  then have "map finding_target
         (session_findings
            (snd (record_result default_agent ''web_vuln'' (Some ''192.168.1.10'')
                    web_result None)))
       = [''192.168.1.10'']"
    by (simp add: record_result_findings empty build_finding_def target_or_def)
  then show ?thesis
    by (simp add: web_result_def web_payload_def)
qed

section \<open>The completed envelope\<close>

text \<open>
  Claim C10. For every query that passes the scope check and the safety gate, when the
  language model returns its plan and no plugin raises anything but an \<open>Exception\<close> (so
  that no exception leaves the plugin loop or reaches the outer handler),
  \<open>process_query\<close> returns an envelope with \<open>success\<close> true. Its result list holds the
  entries of every selected plugin: its result, or its failure; the envelope's \<open>success\<close>
  does not depend on theirs.
\<close>

theorem completed_envelope_success:
  assumes "passes_scope ag query" and "passes_safety ag query rc"
    and "agent_llm ag
           (build_planning_prompt query
              (build_context query (extract_target query) (logged ag query mem0)))
           (get_context (logged ag query mem0)) = Inr plan"
    and "raise_only_Exception (matching_plugins ag query)
           (build_context query (extract_target query) (logged ag query mem0))"
  shows "\<exists>env results mem'.
           process_query ag query rc mem0 = (Inr env, mem')
           \<and> success env = True
           \<and> results_key env = Some results
           \<and> results =
               concat (map (plugin_entries (extract_target query)
                              (build_context query (extract_target query)
                                 (logged ag query mem0)))
                         (matching_plugins ag query))"
proof -
  from dispatch_completed [OF assms(3) assms(4)]
  obtain response mem' where
    "dispatch ag query (extract_target query) (logged ag query mem0) =
       (Inr (Completed query (extract_target query)
               (map plugin_name (matching_plugins ag query))
               (concat (map (plugin_entries (extract_target query)
                               (build_context query (extract_target query)
                                  (logged ag query mem0)))
                          (matching_plugins ag query)))
               response plan), mem')"
    by blast
  then show ?thesis
    by (simp add: process_query_reaches_dispatch [OF assms(1) assms(2)])
qed

theorem completed_envelope_success_witness:
  "passes_scope default_agent ''scan the network for open ports''
   \<and> passes_safety default_agent ''scan the network for open ports'' None
   \<and> raise_only_Exception (matching_plugins default_agent ''scan the network for open ports'')
         (build_context ''scan the network for open ports''
            (extract_target ''scan the network for open ports'')
            (logged default_agent ''scan the network for open ports'' None))
   \<and> (\<exists>env results mem'.
         process_query default_agent ''scan the network for open ports'' None None
           = (Inr env, mem')
         \<and> success env = True
         \<and> results_key env = Some results
         \<and> map pr_success results = [Some False]
         \<and> map pr_error results = [Some ''No target specified''])"
proof -
  let ?q = "''scan the network for open ports''"
  let ?ctx = "build_context ?q None (logged default_agent ?q None)"
  note h1 = passes_scope_examples(3)
  note h2 = passes_safety_examples(2)
  have h3: "agent_llm default_agent
              (build_planning_prompt ?q
                 (build_context ?q (extract_target ?q) (logged default_agent ?q None)))
              (get_context (logged default_agent ?q None))
            = Inr ''I will scan the target for open ports.''"
    by (rule example_llm_returns)
  have h4: "raise_only_Exception (matching_plugins default_agent ?q)
              (build_context ?q (extract_target ?q) (logged default_agent ?q None))"
    by (simp add: matching_plugins_examples extract_target_examples
        raise_only_Exception_examples)
  from completed_envelope_success [OF h1 h2 h3 h4]
  obtain env results mem' where
    pq: "process_query default_agent ?q None None = (Inr env, mem')"
    and ok: "success env = True" and key: "results_key env = Some results"
    and rs: "results = concat (map (plugin_entries None ?ctx) [nmap_plugin example_nmap])"
    by (auto simp: matching_plugins_examples extract_target_examples)
  from rs have "map pr_success results = [Some False]"
    "map pr_error results = [Some ''No target specified'']"
    by (simp_all add: plugin_entries_examples)
  with pq ok key h1 h2 h4 show ?thesis
    by auto
qed

end
